theory Spec2Isabelle
  imports Main
begin

section \<open>Text\<close>

text \<open>
  A Python \<open>str\<close> is a sequence of Unicode code points, so a text is a list of natural
  numbers. A file's content is the text that Python's text layer delivers on reading and
  accepts on writing. \<open>ustr\<close> turns an ASCII literal into such a text.
\<close>

type_synonym ustring = "nat list"

definition ustr :: "string \<Rightarrow> ustring" where
  "ustr s = map of_char s"

text \<open>
  \<open>str.isspace\<close> on one code point: the characters that \<open>str.strip()\<close> removes.
\<close>

definition isspace :: "nat \<Rightarrow> bool" where
  "isspace c \<longleftrightarrow>
     (9 \<le> c \<and> c \<le> 13) \<or> (28 \<le> c \<and> c \<le> 32) \<or> c = 133 \<or> c = 160 \<or> c = 5760 \<or>
     (8192 \<le> c \<and> c \<le> 8202) \<or> c = 8232 \<or> c = 8233 \<or> c = 8239 \<or> c = 8287 \<or> c = 12288"

definition strip :: "ustring \<Rightarrow> ustring" where
  "strip s = rev (dropWhile isspace (rev (dropWhile isspace s)))"

section \<open>JSON documents\<close>

text \<open>
  What \<open>json.load\<close> returns: \<open>None\<close>, a \<open>bool\<close>, an \<open>int\<close>, a \<open>float\<close>, a \<open>str\<close>,
  a \<open>list\<close> or a \<open>dict\<close> with \<open>str\<close> keys. A \<open>dict\<close> keeps its keys in insertion
  order, so it is an association list. The type of floats is a parameter.
\<close>

datatype 'f json =
    JNull
  | JBool bool
  | JInt int
  | JFloat 'f
  | JStr ustring
  | JArr "'f json list"
  | JObj "(ustring \<times> 'f json) list"

text \<open>\<open>k in d\<close>, \<open>d[k]\<close> and \<open>d[k] = v\<close> on a \<open>dict\<close>.\<close>

definition dict_has :: "ustring \<Rightarrow> (ustring \<times> 'a) list \<Rightarrow> bool" where
  "dict_has k d \<longleftrightarrow> k \<in> fst ` set d"

fun dict_get :: "ustring \<Rightarrow> (ustring \<times> 'a) list \<Rightarrow> 'a option" where
  "dict_get k [] = None"
| "dict_get k ((k', v) # d) = (if k' = k then Some v else dict_get k d)"

fun dict_set :: "ustring \<Rightarrow> 'a \<Rightarrow> (ustring \<times> 'a) list \<Rightarrow> (ustring \<times> 'a) list" where
  "dict_set k v [] = [(k, v)]"
| "dict_set k v ((k', v') # d) = (if k' = k then (k, v) # d else (k', v') # dict_set k v d)"

section \<open>The JSON library\<close>

text \<open>
  \<open>json.dump(obj, f, indent=2, ensure_ascii=False)\<close> and \<open>json.load(f)\<close> belong to
  Python's standard library. They are modelled after CPython's \<open>json.encoder\<close> and
  \<open>json.decoder\<close>; what the library does with floats (\<open>float(text)\<close> on reading,
  \<open>float.__repr__\<close> and the names \<open>NaN\<close>, \<open>Infinity\<close>, \<open>-Infinity\<close> on writing) is a
  parameter, and so is the interpreter's limit on the digits of an integer
  (\<open>sys.get_int_max_str_digits()\<close>, 0 for none). The recursion limit and the memory of the
  interpreter are outside the model.
\<close>

record 'f library =
  parse_float :: "ustring \<Rightarrow> 'f"
  float_repr :: "'f \<Rightarrow> ustring"
  max_str_digits :: nat

subsection \<open>Writing\<close>

function digits :: "nat \<Rightarrow> ustring" where
  "digits n = (if n < 10 then [48 + n] else digits (n div 10) @ [48 + n mod 10])"
  by pat_completeness auto
termination
  by (relation "measure id") auto

declare digits.simps [simp del]

definition int_repr :: "int \<Rightarrow> ustring" where
  "int_repr i = (if i < 0 then 45 # digits (nat (- i)) else digits (nat i))"

definition hex_digit :: "nat \<Rightarrow> nat" where
  "hex_digit d = (if d < 10 then 48 + d else 87 + d)"

text \<open>
  The replacement of one character inside a string literal: the short escapes, then
  \<open>\u00xx\<close> for the other characters below 32; every other character is written as it
  is, since \<open>ensure_ascii\<close> is off.
\<close>

definition escape_char :: "nat \<Rightarrow> ustring" where
  "escape_char c =
     (if c = 92 then [92, 92]
      else if c = 34 then [92, 34]
      else if c = 8 then [92, 98]
      else if c = 12 then [92, 102]
      else if c = 10 then [92, 110]
      else if c = 13 then [92, 114]
      else if c = 9 then [92, 116]
      else if c < 32 then [92, 117, 48, 48, hex_digit (c div 16), hex_digit (c mod 16)]
      else [c])"

definition encode_basestring :: "ustring \<Rightarrow> ustring" where
  "encode_basestring s = 34 # concat (map escape_char s) @ [34]"

definition newline_indent :: "nat \<Rightarrow> ustring" where
  "newline_indent level = 10 # replicate (2 * level) 32"

text \<open>
  \<open>iterencode\<close> yields the text in chunks, and \<open>json.dump\<close> writes them one by one: the
  list of chunks is what the generators of \<open>json.encoder\<close> yield, in order. In a list a
  scalar item comes in one chunk with the bracket or separator before it; before an item
  that is a list or an object the bracket or separator is a chunk of its own.
\<close>

fun iterencode :: "('f \<Rightarrow> ustring) \<Rightarrow> nat \<Rightarrow> 'f json \<Rightarrow> ustring list"
  and iterencode_list ::
    "('f \<Rightarrow> ustring) \<Rightarrow> nat \<Rightarrow> ustring \<Rightarrow> 'f json list \<Rightarrow> ustring list"
  and iterencode_dict ::
    "('f \<Rightarrow> ustring) \<Rightarrow> nat \<Rightarrow> (ustring \<times> 'f json) list \<Rightarrow> ustring list"
where
  "iterencode fr level JNull = [ustr ''null'']"
| "iterencode fr level (JBool b) = [if b then ustr ''true'' else ustr ''false'']"
| "iterencode fr level (JInt i) = [int_repr i]"
| "iterencode fr level (JFloat x) = [fr x]"
| "iterencode fr level (JStr s) = [encode_basestring s]"
| "iterencode fr level (JArr []) = [ustr ''[]'']"
| "iterencode fr level (JArr (x # xs)) =
     iterencode_list fr (Suc level) (91 # newline_indent (Suc level)) (x # xs)
       @ [newline_indent level, [93]]"
| "iterencode fr level (JObj []) = [ustr ''{}'']"
| "iterencode fr level (JObj (p # ps)) =
     [123] # newline_indent (Suc level) # iterencode_dict fr (Suc level) (p # ps)
       @ [newline_indent level, [125]]"
| "iterencode_list fr level buf [] = []"
| "iterencode_list fr level buf (x # xs) =
     (case x of
        JArr ys \<Rightarrow> buf # iterencode fr level x
      | JObj d \<Rightarrow> buf # iterencode fr level x
      | _ \<Rightarrow> [buf @ concat (iterencode fr level x)])
       @ iterencode_list fr level (44 # newline_indent level) xs"
| "iterencode_dict fr level [] = []"
| "iterencode_dict fr level [(k, v)] =
     encode_basestring k # [58, 32] # iterencode fr level v"
| "iterencode_dict fr level ((k, v) # q # qs) =
     encode_basestring k # [58, 32] # iterencode fr level v
       @ (44 # newline_indent level) # iterencode_dict fr level (q # qs)"

text \<open>The whole text of a dump, which a file holds when every chunk has been written.\<close>

definition json_dumps :: "'f library \<Rightarrow> 'f json \<Rightarrow> ustring" where
  "json_dumps L obj = concat (iterencode (float_repr L) 0 obj)"

text \<open>
  The files are opened with \<open>encoding='utf-8'\<close>, which has no encoding for the surrogate
  code points D800 to DFFF. A string that came from a lone \<open>\ud800\<close> escape holds one, and
  the write of its chunk raises \<open>UnicodeEncodeError\<close>.
\<close>

definition encodable :: "ustring \<Rightarrow> bool" where
  "encodable s = list_all (\<lambda>c. c < 55296 \<or> 57343 < c) s"

definition writable :: "'f library \<Rightarrow> 'f json \<Rightarrow> bool" where
  "writable L obj = list_all encodable (iterencode (float_repr L) 0 obj)"

text \<open>The chunks before the first one that cannot be encoded.\<close>

definition truncated_dump :: "'f library \<Rightarrow> 'f json \<Rightarrow> ustring" where
  "truncated_dump L obj = concat (takeWhile encodable (iterencode (float_repr L) 0 obj))"

subsection \<open>Reading\<close>

definition is_ws :: "nat \<Rightarrow> bool" where
  "is_ws c \<longleftrightarrow> c = 32 \<or> c = 9 \<or> c = 10 \<or> c = 13"

definition skip_ws :: "ustring \<Rightarrow> ustring" where
  "skip_ws s = dropWhile is_ws s"

definition is_digit :: "nat \<Rightarrow> bool" where
  "is_digit c \<longleftrightarrow> 48 \<le> c \<and> c \<le> 57"

definition hex_val :: "nat \<Rightarrow> nat option" where
  "hex_val c =
     (if 48 \<le> c \<and> c \<le> 57 then Some (c - 48)
      else if 97 \<le> c \<and> c \<le> 102 then Some (c - 87)
      else if 65 \<le> c \<and> c \<le> 70 then Some (c - 55)
      else None)"

fun hex4 :: "ustring \<Rightarrow> (nat \<times> ustring) option" where
  "hex4 (a # b # c # d # r) =
     (case (hex_val a, hex_val b, hex_val c, hex_val d) of
        (Some x, Some y, Some z, Some w) \<Rightarrow> Some (((x * 16 + y) * 16 + z) * 16 + w, r)
      | _ \<Rightarrow> None)"
| "hex4 _ = None"

text \<open>
  One escape sequence, read after its backslash: the character it stands for and the
  rest of the text. A high surrogate followed by the escape of a low surrogate is one
  character; a second escape that is not four hexadecimal digits is an error.
\<close>

definition unicode_escape :: "ustring \<Rightarrow> (nat \<times> ustring) option" where
  "unicode_escape s =
     (case hex4 s of
        None \<Rightarrow> None
      | Some (uni, r) \<Rightarrow>
          if 55296 \<le> uni \<and> uni \<le> 56319 \<and> take 2 r = [92, 117] then
            (case hex4 (drop 2 r) of
               None \<Rightarrow> None
             | Some (uni2, r2) \<Rightarrow>
                 if 56320 \<le> uni2 \<and> uni2 \<le> 57343
                 then Some (65536 + ((uni - 55296) * 1024 + (uni2 - 56320)), r2)
                 else Some (uni, r))
          else Some (uni, r))"

definition scan_escape :: "ustring \<Rightarrow> (nat \<times> ustring) option" where
  "scan_escape s =
     (case s of
        [] \<Rightarrow> None
      | esc # r \<Rightarrow>
          if esc = 117 then unicode_escape r
          else if esc = 34 \<or> esc = 92 \<or> esc = 47 then Some (esc, r)
          else if esc = 98 then Some (8, r)
          else if esc = 102 then Some (12, r)
          else if esc = 110 then Some (10, r)
          else if esc = 114 then Some (13, r)
          else if esc = 116 then Some (9, r)
          else None)"

lemma hex4_shorter: "hex4 s = Some (n, r) \<Longrightarrow> length r < length s"
  by (induction s rule: hex4.induct) (auto split: option.splits)

lemma unicode_escape_shorter: "unicode_escape s = Some (c, r) \<Longrightarrow> length r < length s"
  by (auto simp: unicode_escape_def split: option.splits if_splits dest!: hex4_shorter)

lemma scan_escape_shorter: "scan_escape s = Some (c, r) \<Longrightarrow> length r < length s"
  by (auto simp: scan_escape_def split: list.splits if_splits dest!: unicode_escape_shorter)

text \<open>
  \<open>scanstring\<close>, strict: the text after the opening quote, up to the closing one.
  A character below 32 inside a string is an error.
\<close>

function scanstring :: "ustring \<Rightarrow> (ustring \<times> ustring) option" where
  "scanstring [] = None"
| "scanstring (c # r) =
     (if c = 34 then Some ([], r)
      else if c = 92 then
        (case scan_escape r of
           None \<Rightarrow> None
         | Some (ch, r') \<Rightarrow>
             (case scanstring r' of None \<Rightarrow> None | Some (str, r'') \<Rightarrow> Some (ch # str, r'')))
      else if c \<le> 31 then None
      else (case scanstring r of None \<Rightarrow> None | Some (str, r'') \<Rightarrow> Some (c # str, r'')))"
  by pat_completeness auto
termination
  by (relation "measure length") (auto dest: scan_escape_shorter)

declare scanstring.simps [simp del]

text \<open>
  A number: \<open>-?(0|[1-9][0-9]*)(\.[0-9]+)?([eE][-+]?[0-9]+)?\<close>, the longest match. It
  is an \<open>int\<close> when it has neither fraction nor exponent, a \<open>float\<close> otherwise. The
  conversion of an integer of more than 640 digits raises \<open>ValueError\<close> when the
  interpreter has a limit and the digits exceed it.
\<close>

definition int_of_digits :: "ustring \<Rightarrow> int" where
  "int_of_digits ds = foldl (\<lambda>a d. 10 * a + (int d - 48)) 0 ds"

definition match_int :: "ustring \<Rightarrow> (ustring \<times> ustring) option" where
  "match_int s =
     (case s of
        [] \<Rightarrow> None
      | c # r \<Rightarrow>
          if c = 48 then Some ([c], r)
          else if 49 \<le> c \<and> c \<le> 57 then Some (c # takeWhile is_digit r, dropWhile is_digit r)
          else None)"

definition match_frac :: "ustring \<Rightarrow> ustring \<times> ustring" where
  "match_frac s =
     (case s of
        c # d # r \<Rightarrow>
          if c = 46 \<and> is_digit d then (c # d # takeWhile is_digit r, dropWhile is_digit r)
          else ([], s)
      | _ \<Rightarrow> ([], s))"

definition match_exp :: "ustring \<Rightarrow> ustring \<times> ustring" where
  "match_exp s =
     (case s of
        [] \<Rightarrow> ([], s)
      | e # r \<Rightarrow>
          if e = 101 \<or> e = 69 then
            (let sg = (case r of [] \<Rightarrow> [] | x # t \<Rightarrow> if x = 45 \<or> x = 43 then [x] else []);
                 r' = drop (length sg) r
             in if takeWhile is_digit r' = [] then ([], s)
                else (e # sg @ takeWhile is_digit r', dropWhile is_digit r'))
          else ([], s))"

definition match_number :: "'f library \<Rightarrow> ustring \<Rightarrow> ('f json \<times> ustring) option" where
  "match_number L s =
     (let neg = (case s of [] \<Rightarrow> False | c # r \<Rightarrow> c = 45);
          s1 = (if neg then tl s else s)
      in case match_int s1 of
           None \<Rightarrow> None
         | Some (ds, r) \<Rightarrow>
             (let (frac, r1) = match_frac r;
                  (ex, r2) = match_exp r1
              in if frac = [] \<and> ex = [] then
                   if 640 < length ds \<and> 0 < max_str_digits L \<and> max_str_digits L < length ds
                   then None
                   else Some (JInt (if neg then - int_of_digits ds else int_of_digits ds), r2)
                 else
                   Some (JFloat (parse_float L ((if neg then [45] else []) @ ds @ frac @ ex)),
                         r2)))"

definition starts_with :: "ustring \<Rightarrow> ustring \<Rightarrow> bool" where
  "starts_with p s \<longleftrightarrow> take (length p) s = p"

text \<open>
  The names the scanner knows, tried before a number: \<open>null\<close>, \<open>true\<close>, \<open>false\<close>, and
  the three float constants, which reach the float library by name.
\<close>

definition scan_constant :: "'f library \<Rightarrow> ustring \<Rightarrow> ('f json \<times> ustring) option" where
  "scan_constant L s =
     (if starts_with (ustr ''null'') s then Some (JNull, drop 4 s)
      else if starts_with (ustr ''true'') s then Some (JBool True, drop 4 s)
      else if starts_with (ustr ''false'') s then Some (JBool False, drop 5 s)
      else if starts_with (ustr ''NaN'') s
        then Some (JFloat (parse_float L (ustr ''NaN'')), drop 3 s)
      else if starts_with (ustr ''Infinity'') s
        then Some (JFloat (parse_float L (ustr ''Infinity'')), drop 8 s)
      else if starts_with (ustr ''-Infinity'') s
        then Some (JFloat (parse_float L (ustr ''-Infinity'')), drop 9 s)
      else None)"

lemma scanstring_shorter: "scanstring s = Some (str, r) \<Longrightarrow> length r < length s"
proof (induction s arbitrary: str r rule: scanstring.induct)
  case 1
  then show ?case by (simp add: scanstring.simps)
next
  case (2 c s)
  show ?case
  proof (cases "c = 34")
    case True
    with "2.prems" show ?thesis by (simp add: scanstring.simps)
  next
    case quote: False
    show ?thesis
    proof (cases "c = 92")
      case True
      with quote "2.prems" obtain ch r' str' where
        e: "scan_escape s = Some (ch, r')" and t: "scanstring r' = Some (str', r)"
        by (auto simp: scanstring.simps split: option.splits)
      from "2.IH"(1) [OF quote True e refl t] scan_escape_shorter [OF e] show ?thesis by simp
    next
      case False
      with quote "2.prems" obtain str' where
        c: "\<not> c \<le> 31" and t: "scanstring s = Some (str', r)"
        by (auto simp: scanstring.simps split: option.splits if_splits)
      from "2.IH"(2) [OF quote False c t] show ?thesis by simp
    qed
  qed
qed

lemma length_skip_ws: "length (skip_ws s) \<le> length s"
  by (simp add: skip_ws_def length_dropWhile_le)

lemma skip_ws_Cons_shorter: "skip_ws s = d # r \<Longrightarrow> length r < length s"
  using length_skip_ws [of s] by simp

text \<open>
  \<open>scan_once\<close> reads one value at the head of the text. \<open>parse_array\<close> and
  \<open>parse_object\<close> continue after the opening bracket at the first item, with the items
  read so far; a key read twice keeps its first place and takes the last value, as
  \<open>dict(pairs)\<close> does. The comparisons of lengths only make the recursion well-founded:
  \<open>scan_once_shorter\<close> below shows that they always hold.
\<close>

function scan_once :: "'f library \<Rightarrow> ustring \<Rightarrow> ('f json \<times> ustring) option"
  and parse_array ::
    "'f library \<Rightarrow> ustring \<Rightarrow> 'f json list \<Rightarrow> ('f json \<times> ustring) option"
  and parse_object ::
    "'f library \<Rightarrow> ustring \<Rightarrow> (ustring \<times> 'f json) list \<Rightarrow> ('f json \<times> ustring) option"
where
  "scan_once L [] = None"
| "scan_once L (c # r) =
     (if c = 34 then
        (case scanstring r of None \<Rightarrow> None | Some (str, r') \<Rightarrow> Some (JStr str, r'))
      else if c = 123 then
        (case skip_ws r of
           [] \<Rightarrow> None
         | d # r' \<Rightarrow> if d = 125 then Some (JObj [], r') else parse_object L (d # r') [])
      else if c = 91 then
        (case skip_ws r of
           [] \<Rightarrow> None
         | d # r' \<Rightarrow> if d = 93 then Some (JArr [], r') else parse_array L (d # r') [])
      else
        (case scan_constant L (c # r) of
           Some res \<Rightarrow> Some res
         | None \<Rightarrow> match_number L (c # r)))"
| "parse_array L s values =
     (case scan_once L s of
        None \<Rightarrow> None
      | Some (v, r) \<Rightarrow>
          if length r < length s then
            (case skip_ws r of
               [] \<Rightarrow> None
             | d # r' \<Rightarrow>
                 if d = 93 then Some (JArr (values @ [v]), r')
                 else if d = 44 then parse_array L (skip_ws r') (values @ [v])
                 else None)
          else None)"
| "parse_object L s pairs =
     (case s of
        [] \<Rightarrow> None
      | q # r \<Rightarrow>
          if q = 34 then
            (case scanstring r of
               None \<Rightarrow> None
             | Some (key, r1) \<Rightarrow>
                 (case skip_ws r1 of
                    [] \<Rightarrow> None
                  | colon # r2 \<Rightarrow>
                      if colon = 58 then
                        (case scan_once L (skip_ws r2) of
                           None \<Rightarrow> None
                         | Some (v, r3) \<Rightarrow>
                             if length r3 < length s then
                               (case skip_ws r3 of
                                  [] \<Rightarrow> None
                                | d # r4 \<Rightarrow>
                                    if d = 125 then Some (JObj (dict_set key v pairs), r4)
                                    else if d = 44
                                      then parse_object L (skip_ws r4) (dict_set key v pairs)
                                    else None)
                             else None)
                      else None))
          else None)"
  by pat_completeness auto

termination
proof (relation "measure (\<lambda>x. case x of
          Inl (L, s) \<Rightarrow> 2 * length s
        | Inr (Inl (L, s, vs)) \<Rightarrow> 2 * length s + 1
        | Inr (Inr (L, s, ps)) \<Rightarrow> 2 * length s + 1)", goal_cases)
  case 1
  then show ?case by simp
next
  case (2 L c r d r')
  then show ?case using skip_ws_Cons_shorter [of r d r'] by simp
next
  case (3 L c r d r')
  then show ?case using skip_ws_Cons_shorter [of r d r'] by simp
next
  case (4 L s vs)
  then show ?case by simp
next
  case (5 L s vs x2 v r d r')
  then show ?case
    using skip_ws_Cons_shorter [of r d r'] length_skip_ws [of r'] by simp
next
  case (6 L s ps q r x2 key r1 colon r2)
  then show ?case
    using scanstring_shorter [of r key r1] skip_ws_Cons_shorter [of r1 colon r2]
      length_skip_ws [of r2] by simp
next
  case (7 L s ps q r x2 key r1 colon r2 x2a v r3 d r4)
  then show ?case
    using skip_ws_Cons_shorter [of r3 d r4] length_skip_ws [of r4] by simp
qed

declare scan_once.simps [simp del] parse_array.simps [simp del] parse_object.simps [simp del]

definition json_loads :: "'f library \<Rightarrow> ustring \<Rightarrow> 'f json option" where
  "json_loads L s =
     (case scan_once L (skip_ws s) of
        None \<Rightarrow> None
      | Some (obj, r) \<Rightarrow> if skip_ws r = [] then Some obj else None)"

section \<open>Python's operations on a loaded document\<close>

text \<open>
  The script applies \<open>in\<close>, \<open>v[k]\<close> and \<open>v[k] = x\<close> with string keys to whatever
  \<open>json.load\<close> returned. On a \<open>dict\<close> they look up and store; \<open>in\<close> also works on
  a \<open>list\<close> (some element equals the string) and on a \<open>str\<close> (substring); everything
  else raises \<open>TypeError\<close>, and reading a missing key raises \<open>KeyError\<close>. What
  \<open>json.load\<close> raises is a \<open>ValueError\<close>: \<open>JSONDecodeError\<close>, which is one, on a malformed
  text, and \<open>ValueError\<close> itself on an integer beyond the limit.
\<close>

datatype exn = ValueError | TypeError | KeyError | UnicodeEncodeError

definition bind_exn :: "exn + 'a \<Rightarrow> ('a \<Rightarrow> exn + 'b) \<Rightarrow> exn + 'b" where
  "bind_exn m f = (case m of Inl e \<Rightarrow> Inl e | Inr x \<Rightarrow> f x)"

fun is_substring :: "ustring \<Rightarrow> ustring \<Rightarrow> bool" where
  "is_substring p [] = (p = [])"
| "is_substring p (c # s) = (starts_with p (c # s) \<or> is_substring p s)"

fun contains :: "ustring \<Rightarrow> 'f json \<Rightarrow> exn + bool" where
  "contains k (JObj d) = Inr (dict_has k d)"
| "contains k (JArr xs) = Inr (JStr k \<in> set xs)"
| "contains k (JStr s) = Inr (is_substring k s)"
| "contains k _ = Inl TypeError"

fun getitem :: "'f json \<Rightarrow> ustring \<Rightarrow> exn + 'f json" where
  "getitem (JObj d) k = (case dict_get k d of None \<Rightarrow> Inl KeyError | Some v \<Rightarrow> Inr v)"
| "getitem _ k = Inl TypeError"

fun setitem :: "'f json \<Rightarrow> ustring \<Rightarrow> 'f json \<Rightarrow> exn + 'f json" where
  "setitem (JObj d) k x = Inr (JObj (dict_set k x d))"
| "setitem _ k x = Inl TypeError"

text \<open>
  \<open>config[k1][k2]...\<close> evaluates to an object inside the document, which a statement
  then changes in place. The document is a tree, so the change is a change of the
  document at that path.
\<close>

fun update_at ::
  "ustring list \<Rightarrow> ('f json \<Rightarrow> exn + 'f json) \<Rightarrow> 'f json \<Rightarrow> exn + 'f json" where
  "update_at [] f v = f v"
| "update_at (k # ks) f v =
     bind_exn (getitem v k) (\<lambda>sub. bind_exn (update_at ks f sub) (\<lambda>sub'. setitem v k sub'))"

fun get_at :: "ustring list \<Rightarrow> 'f json \<Rightarrow> exn + 'f json" where
  "get_at [] v = Inr v"
| "get_at (k # ks) v = bind_exn (getitem v k) (get_at ks)"

section \<open>The script\<close>

text \<open>Lines 39 and 40 of \<open>main\<close>: \<open>mcpServers\<close> is created empty when it is missing.\<close>

definition ensure_mcpServers :: "'f json \<Rightarrow> exn + 'f json" where
  "ensure_mcpServers config =
     bind_exn (contains (ustr ''mcpServers'') config) (\<lambda>present.
       if \<not> present then setitem config (ustr ''mcpServers'') (JObj []) else Inr config)"

text \<open>Lines 43 to 49: the name of the entry to update, and the document with that entry.\<close>

definition choose_server :: "'f json \<Rightarrow> exn + (ustring \<times> 'f json)" where
  "choose_server config =
     bind_exn (get_at [ustr ''mcpServers''] config) (\<lambda>servers.
     bind_exn (contains (ustr ''easygrid'') servers) (\<lambda>present.
       if \<not> present then
         bind_exn (contains (ustr ''easygrid-mcp'') servers) (\<lambda>legacy.
           if legacy then Inr (ustr ''easygrid-mcp'', config)
           else
             bind_exn
               (update_at [ustr ''mcpServers'']
                  (\<lambda>s. setitem s (ustr ''easygrid'') (JObj [])) config)
               (\<lambda>config'. Inr (ustr ''easygrid'', config')))
       else Inr (ustr ''easygrid'', config)))"

text \<open>Lines 51 and 52: the entry gets an empty \<open>headers\<close> when it has none.\<close>

definition ensure_headers :: "ustring \<Rightarrow> 'f json \<Rightarrow> exn + 'f json" where
  "ensure_headers server_name config =
     bind_exn (get_at [ustr ''mcpServers'', server_name] config) (\<lambda>entry.
     bind_exn (contains (ustr ''headers'') entry) (\<lambda>present.
       if \<not> present then
         update_at [ustr ''mcpServers'', server_name]
           (\<lambda>e. setitem e (ustr ''headers'') (JObj [])) config
       else Inr config))"

text \<open>Lines 54 to 56: the three assignments.\<close>

definition set_fields :: "ustring \<Rightarrow> ustring \<Rightarrow> 'f json \<Rightarrow> exn + 'f json" where
  "set_fields api_key server_name config =
     bind_exn
       (update_at [ustr ''mcpServers'', server_name, ustr ''headers'']
          (\<lambda>h. setitem h (ustr ''X-MCP-API-Key'') (JStr api_key)) config)
       (\<lambda>c1.
     bind_exn
       (update_at [ustr ''mcpServers'', server_name]
          (\<lambda>e. setitem e (ustr ''url'') (JStr (ustr ''http://localhost:8080/api/mcp/v1''))) c1)
       (\<lambda>c2.
       update_at [ustr ''mcpServers'', server_name]
         (\<lambda>e. setitem e (ustr ''description'') (JStr (ustr ''EasyGrid CRUD - MCP HTTP''))) c2))"

text \<open>Lines 39 to 56 together: the change of the loaded document.\<close>

definition update_config :: "ustring \<Rightarrow> 'f json \<Rightarrow> exn + 'f json" where
  "update_config api_key config =
     bind_exn (ensure_mcpServers config) (\<lambda>c1.
     bind_exn (choose_server c1) (\<lambda>(server_name, c2).
     bind_exn (ensure_headers server_name c2) (\<lambda>c3.
       set_fields api_key server_name c3)))"

text \<open>The value of \<open>server_name\<close> after line 49.\<close>

definition chosen_server :: "'f json \<Rightarrow> exn + ustring" where
  "chosen_server config =
     bind_exn (ensure_mcpServers config) (\<lambda>c1.
     bind_exn (choose_server c1) (\<lambda>(server_name, c2). Inr server_name))"

text \<open>
  The world of one run: the three files (absent, or their text), and what the run has
  printed and written so far, in order. \<open>Wrote p text\<close> is a completed write of a file,
  \<open>Truncated p text\<close> a write that failed and left \<open>text\<close> in the file. Each path is
  absent or a regular file that the text layer can decode, the file system is assumed to
  let the script read and write these files, and standard output to accept every line.
\<close>

datatype path = ApiKeyFile | McpJson | Backup

datatype event = Printed ustring | Wrote path ustring | Truncated path ustring

record world =
  files :: "path \<Rightarrow> ustring option"
  events :: "event list"

definition print_line :: "ustring \<Rightarrow> world \<Rightarrow> world" where
  "print_line line w = w\<lparr>events := events w @ [Printed line]\<rparr>"

definition write_text :: "path \<Rightarrow> ustring \<Rightarrow> world \<Rightarrow> world" where
  "write_text p text w =
     w\<lparr>files := (files w)(p \<mapsto> text), events := events w @ [Wrote p text]\<rparr>"

definition fail_write :: "path \<Rightarrow> ustring \<Rightarrow> world \<Rightarrow> world" where
  "fail_write p text w =
     w\<lparr>files := (files w)(p \<mapsto> text), events := events w @ [Truncated p text]\<rparr>"

text \<open>
  \<open>with open(p, 'w', encoding='utf-8') as f: json.dump(obj, f, indent=2,
  ensure_ascii=False)\<close>, lines 35 and 36 and lines 59 and 60. Opening empties the file;
  each chunk is encoded when it is written. When a chunk cannot be encoded the error is
  raised, and closing the file leaves the chunks before that one.
\<close>

definition write_json :: "'f library \<Rightarrow> 'f json \<Rightarrow> path \<Rightarrow> world \<Rightarrow> exn option \<times> world" where
  "write_json L obj p w =
     (if writable L obj then (None, write_text p (json_dumps L obj) w)
      else (Some UnicodeEncodeError, fail_write p (truncated_dump L obj) w))"

datatype outcome = Returned int | Raised exn

text \<open>
  \<open>main\<close>. \<open>L\<close> is the library; \<open>shown p\<close> is what \<open>str\<close> gives for a path (it
  depends on the home directory).
\<close>

definition main :: "'f library \<Rightarrow> (path \<Rightarrow> ustring) \<Rightarrow> world \<Rightarrow> outcome \<times> world" where
  "main L shown w =
     (case files w ApiKeyFile of
        None \<Rightarrow>
          (Returned 1,
           print_line (ustr ''Run: go run server/cmd/mcp-api-key/main.go -action=create'')
             (print_line (ustr ''Error: API Key file not found at '' @ shown ApiKeyFile) w))
      | Some key_text \<Rightarrow>
          (let api_key = strip key_text in
           if api_key = [] then (Returned 1, print_line (ustr ''Error: API Key is empty'') w)
           else
             (case files w McpJson of
                None \<Rightarrow>
                  (Returned 1,
                   print_line (ustr ''Error: mcp.json not found at '' @ shown McpJson) w)
              | Some text \<Rightarrow>
                  (case json_loads L text of
                     None \<Rightarrow> (Raised ValueError, w)
                   | Some config \<Rightarrow>
                       (case write_json L config Backup w of
                          (Some e, w1) \<Rightarrow> (Raised e, w1)
                        | (None, w1) \<Rightarrow>
                            (case update_config api_key config of
                               Inl e \<Rightarrow> (Raised e, w1)
                             | Inr config' \<Rightarrow>
                                 (case write_json L config' McpJson w1 of
                                    (Some e, w2) \<Rightarrow> (Raised e, w2)
                                  | (None, w2) \<Rightarrow>
                                      (Returned 0,
                                       print_line
                                         (ustr ''Please restart Cursor to apply changes'')
                                         (print_line
                                            (9989 # ustr '' Updated '' @ shown McpJson
                                               @ ustr '' with API Key from ''
                                               @ shown ApiKeyFile)
                                            w2)))))))))"

text \<open>What one run printed and wrote: the events it added.\<close>

definition run_events :: "'f library \<Rightarrow> (path \<Rightarrow> ustring) \<Rightarrow> world \<Rightarrow> event list" where
  "run_events L shown w = drop (length (events w)) (events (snd (main L shown w)))"



section \<open>The change of the document in closed form\<close>

text \<open>
  The selection rule as the specification words it, the object under a key (empty when
  the key is missing, none when the value is no object), and the entry after the three
  assignments.
\<close>

definition obj_at :: "ustring \<Rightarrow> (ustring \<times> 'f json) list \<Rightarrow> (ustring \<times> 'f json) list option" where
  "obj_at k d = (case dict_get k d of None \<Rightarrow> Some [] | Some (JObj x) \<Rightarrow> Some x | Some _ \<Rightarrow> None)"

definition selection_rule :: "(ustring \<times> 'f json) list \<Rightarrow> ustring" where
  "selection_rule servers =
     (if dict_has (ustr ''easygrid'') servers then ustr ''easygrid''
      else if dict_has (ustr ''easygrid-mcp'') servers then ustr ''easygrid-mcp''
      else ustr ''easygrid'')"

definition new_entry :: "ustring \<Rightarrow> (ustring \<times> 'f json) list \<Rightarrow> (ustring \<times> 'f json) list \<Rightarrow> (ustring \<times> 'f json) list" where
  "new_entry api_key hdrs entry =
     dict_set (ustr ''description'') (JStr (ustr ''EasyGrid CRUD - MCP HTTP''))
       (dict_set (ustr ''url'') (JStr (ustr ''http://localhost:8080/api/mcp/v1''))
          (dict_set (ustr ''headers'') (JObj (dict_set (ustr ''X-MCP-API-Key'') (JStr api_key) hdrs)) entry))"

section \<open>Example inputs\<close>

text \<open>
  The examples contain no float, so their library may keep a float as its literal; its
  limit on the digits of an integer is the default, 4300. Their home directory is
  \<open>/home/dev\<close>.
\<close>

definition example_floats :: "ustring library" where
  "example_floats = \<lparr>parse_float = id, float_repr = id, max_str_digits = 4300\<rparr>"

definition example_paths :: "path \<Rightarrow> ustring" where
  "example_paths p =
     (case p of
        ApiKeyFile \<Rightarrow> ustr ''/home/dev/.easygrid/api-key''
      | McpJson \<Rightarrow> ustr ''/home/dev/.cursor/mcp.json''
      | Backup \<Rightarrow> ustr ''/home/dev/.cursor/mcp.json.bak'')"

definition example_world :: "ustring option \<Rightarrow> ustring option \<Rightarrow> ustring option \<Rightarrow> world" where
  "example_world key_text config_text backup_text =
     \<lparr>files = (\<lambda>p. case p of ApiKeyFile \<Rightarrow> key_text | McpJson \<Rightarrow> config_text
                      | Backup \<Rightarrow> backup_text),
      events = []\<rparr>"

section \<open>Dictionaries\<close>

lemma dict_has_iff: "dict_has k d \<longleftrightarrow> dict_get k d \<noteq> None"
  by (induction d) (auto simp: dict_has_def)

lemma dict_get_set: "dict_get k (dict_set k' v d) = (if k = k' then Some v else dict_get k d)"
  by (induction d) auto

lemma dict_set_same: "dict_get k d = Some v \<Longrightarrow> dict_set k v d = d"
  by (induction d) (auto split: if_splits)

lemma dict_set_twice: "dict_set k v (dict_set k v' d) = dict_set k v d"
  by (induction d) auto

lemma keys_dict_set:
  "map fst (dict_set k v d) = (if dict_has k d then map fst d else map fst d @ [k])"
  by (induction d) (force simp: dict_has_def)+

section \<open>The document update\<close>

lemma keys_distinct:
  "ustr ''url'' \<noteq> ustr ''headers''" "ustr ''description'' \<noteq> ustr ''headers''"
  "ustr ''description'' \<noteq> ustr ''url''" "ustr ''easygrid'' \<noteq> ustr ''easygrid-mcp''"
  by (simp_all add: ustr_def)

lemma update_config_not_dict:
  "\<forall>tp. config \<noteq> JObj tp \<Longrightarrow> update_config api_key config = Inl TypeError"
  by (cases config)
     (auto simp: update_config_def ensure_mcpServers_def choose_server_def bind_exn_def)

lemma ensure_mcpServers_dict:
  "ensure_mcpServers (JObj tp) =
     Inr (JObj (if dict_has (ustr ''mcpServers'') tp then tp
                else dict_set (ustr ''mcpServers'') (JObj []) tp))"
  by (simp add: ensure_mcpServers_def bind_exn_def)

lemma choose_server_dict:
  assumes "dict_get (ustr ''mcpServers'') tp = Some (JObj servers)"
  shows "choose_server (JObj tp) =
     Inr (selection_rule servers,
          JObj (if dict_has (ustr ''easygrid'') servers \<or> dict_has (ustr ''easygrid-mcp'') servers
                then tp
                else dict_set (ustr ''mcpServers'')
                       (JObj (dict_set (ustr ''easygrid'') (JObj []) servers)) tp))"
  using assms by (simp add: choose_server_def bind_exn_def selection_rule_def)

lemma ensure_headers_dict:
  assumes "dict_get (ustr ''mcpServers'') tp = Some (JObj servers)"
    and "dict_get n servers = Some (JObj entry)"
  shows "ensure_headers n (JObj tp) =
     Inr (JObj (if dict_has (ustr ''headers'') entry then tp
                else dict_set (ustr ''mcpServers'')
                       (JObj (dict_set n (JObj (dict_set (ustr ''headers'') (JObj []) entry))
                          servers)) tp))"
  using assms by (simp add: ensure_headers_def bind_exn_def)

lemma set_fields_dict:
  assumes "dict_get (ustr ''mcpServers'') tp = Some (JObj servers)"
    and "dict_get n servers = Some (JObj entry)"
    and "dict_get (ustr ''headers'') entry = Some (JObj hdrs)"
  shows "set_fields api_key n (JObj tp) =
     Inr (JObj (dict_set (ustr ''mcpServers'')
                  (JObj (dict_set n (JObj (new_entry api_key hdrs entry)) servers)) tp))"
  using assms
  by (simp add: set_fields_def bind_exn_def new_entry_def dict_get_set dict_set_twice)

lemma obj_at_cases:
  assumes "obj_at k d = Some x"
  obtains "dict_get k d = None" "x = []" | "dict_get k d = Some (JObj x)"
  using assms by (auto simp: obj_at_def split: option.splits json.splits)

lemma update_config_dict:
  assumes servers: "obj_at (ustr ''mcpServers'') tp = Some servers"
    and entry: "obj_at (selection_rule servers) servers = Some entry"
    and hdrs: "obj_at (ustr ''headers'') entry = Some hdrs"
  shows "update_config api_key (JObj tp) =
     Inr (JObj (dict_set (ustr ''mcpServers'')
                  (JObj (dict_set (selection_rule servers)
                     (JObj (new_entry api_key hdrs entry)) servers)) tp))"
proof -
  let ?M = "ustr ''mcpServers''" and ?E = "ustr ''easygrid''" and ?H = "ustr ''headers''"
  let ?n = "selection_rule servers"
  define tp1 where "tp1 = (if dict_has ?M tp then tp else dict_set ?M (JObj []) tp)"
  define servers2 where "servers2 =
    (if dict_has ?E servers \<or> dict_has (ustr ''easygrid-mcp'') servers then servers
     else dict_set ?E (JObj []) servers)"
  define tp2 where "tp2 = dict_set ?M (JObj servers2) tp1"
  define entry3 where "entry3 = (if dict_has ?H entry then entry else dict_set ?H (JObj []) entry)"
  define servers3 where "servers3 = dict_set ?n (JObj entry3) servers2"
  define tp3 where "tp3 = dict_set ?M (JObj servers3) tp2"
  have g1: "dict_get ?M tp1 = Some (JObj servers)"
    using servers by (rule obj_at_cases) (auto simp: tp1_def dict_has_iff dict_get_set)
  have s1: "ensure_mcpServers (JObj tp) = Inr (JObj tp1)"
    by (simp add: ensure_mcpServers_dict tp1_def)
  have s2: "choose_server (JObj tp1) = Inr (?n, JObj tp2)"
    using g1 by (simp add: choose_server_dict [OF g1] tp2_def servers2_def dict_set_same)
  have g2: "dict_get ?M tp2 = Some (JObj servers2)"
    by (simp add: tp2_def dict_get_set)
  have g3: "dict_get ?n servers2 = Some (JObj entry)"
    using entry
    by (rule obj_at_cases)
       (auto simp: servers2_def selection_rule_def dict_has_iff dict_get_set split: if_splits)
  have s3: "ensure_headers ?n (JObj tp2) = Inr (JObj tp3)"
    using g2 g3
    by (simp add: ensure_headers_dict [OF g2 g3] tp3_def servers3_def entry3_def dict_set_same)
  have g4: "dict_get ?M tp3 = Some (JObj servers3)"
    by (simp add: tp3_def dict_get_set)
  have g5: "dict_get ?n servers3 = Some (JObj entry3)"
    by (simp add: servers3_def dict_get_set)
  have g6: "dict_get ?H entry3 = Some (JObj hdrs)"
    using hdrs by (rule obj_at_cases) (auto simp: entry3_def dict_has_iff dict_get_set)
  have s4: "set_fields api_key ?n (JObj tp3) =
      Inr (JObj (dict_set ?M (JObj (dict_set ?n (JObj (new_entry api_key hdrs entry3)) servers3)) tp3))"
    by (rule set_fields_dict [OF g4 g5 g6])
  have e1: "new_entry api_key hdrs entry3 = new_entry api_key hdrs entry"
    by (simp add: entry3_def new_entry_def dict_set_twice)
  have e2: "dict_set ?n v servers3 = dict_set ?n v servers" for v
    by (auto simp: servers3_def servers2_def dict_set_twice selection_rule_def)
  have e3: "dict_set ?M v tp3 = dict_set ?M v tp" for v
    by (simp add: tp3_def tp2_def tp1_def dict_set_twice)
  show ?thesis
    by (simp add: update_config_def s1 s2 s3 s4 bind_exn_def e1 e2 e3)
qed

lemma obj_at_nonempty: "obj_at k d = Some x \<Longrightarrow> x \<noteq> [] \<Longrightarrow> dict_get k d = Some (JObj x)"
  by (auto simp: obj_at_def split: option.splits json.splits)

lemma update_config_servers_not_dict:
  assumes "dict_get (ustr ''mcpServers'') tp = Some sv" and "\<forall>x. sv \<noteq> JObj x"
  shows "update_config api_key (JObj tp) = Inl TypeError"
  using assms
  by (cases sv)
     (auto simp: update_config_def ensure_mcpServers_def choose_server_def ensure_headers_def
        bind_exn_def dict_has_iff)

lemma update_config_entry_not_dict:
  assumes servers: "obj_at (ustr ''mcpServers'') tp = Some servers"
    and ev: "dict_get (selection_rule servers) servers = Some ev" and nd: "\<forall>x. ev \<noteq> JObj x"
  shows "update_config api_key (JObj tp) = Inl TypeError"
proof -
  let ?M = "ustr ''mcpServers''" and ?n = "selection_rule servers"
  have g1: "dict_get ?M tp = Some (JObj servers)"
    using ev by (intro obj_at_nonempty [OF servers]) auto
  have has: "dict_has (ustr ''easygrid'') servers \<or> dict_has (ustr ''easygrid-mcp'') servers"
    using ev by (auto simp: selection_rule_def dict_has_iff split: if_splits)
  have s1: "ensure_mcpServers (JObj tp) = Inr (JObj tp)"
    using g1 by (simp add: ensure_mcpServers_dict dict_has_iff)
  have s2: "choose_server (JObj tp) = Inr (?n, JObj tp)"
    using has by (simp add: choose_server_dict [OF g1])
  have s3: "bind_exn (ensure_headers ?n (JObj tp)) (set_fields api_key ?n) = Inl TypeError"
    using g1 ev nd
    by (cases ev) (auto simp: ensure_headers_def set_fields_def bind_exn_def)
  show ?thesis
    by (simp add: update_config_def s1 s2 bind_exn_def) (use s3 in \<open>simp add: bind_exn_def\<close>)
qed

lemma update_config_headers_not_dict:
  assumes servers: "obj_at (ustr ''mcpServers'') tp = Some servers"
    and entry: "obj_at (selection_rule servers) servers = Some entry"
    and hv: "dict_get (ustr ''headers'') entry = Some hv" and nd: "\<forall>x. hv \<noteq> JObj x"
  shows "update_config api_key (JObj tp) = Inl TypeError"
proof -
  let ?M = "ustr ''mcpServers''" and ?n = "selection_rule servers"
  have ne: "entry \<noteq> []" using hv by auto
  have g3: "dict_get ?n servers = Some (JObj entry)"
    using ne by (rule obj_at_nonempty [OF entry])
  have g1: "dict_get ?M tp = Some (JObj servers)"
    using g3 by (intro obj_at_nonempty [OF servers]) auto
  have has: "dict_has (ustr ''easygrid'') servers \<or> dict_has (ustr ''easygrid-mcp'') servers"
    using g3 by (auto simp: selection_rule_def dict_has_iff split: if_splits)
  have s1: "ensure_mcpServers (JObj tp) = Inr (JObj tp)"
    using g1 by (simp add: ensure_mcpServers_dict dict_has_iff)
  have s2: "choose_server (JObj tp) = Inr (?n, JObj tp)"
    using has by (simp add: choose_server_dict [OF g1])
  have s3: "ensure_headers ?n (JObj tp) = Inr (JObj tp)"
    using hv by (simp add: ensure_headers_dict [OF g1 g3] dict_has_iff)
  have s4: "set_fields api_key ?n (JObj tp) = Inl TypeError"
    using g1 g3 hv nd by (cases hv) (auto simp: set_fields_def bind_exn_def)
  show ?thesis
    by (simp add: update_config_def s1 s2 s3 s4 bind_exn_def)
qed

lemma obj_at_None: "obj_at k d = None \<longleftrightarrow> (\<exists>v. dict_get k d = Some v \<and> (\<forall>x. v \<noteq> JObj x))"
  by (auto simp: obj_at_def split: option.splits json.splits)

text \<open>The change of the document, in closed form.\<close>

lemma update_config_Inr:
  assumes "update_config api_key config = Inr config'"
  obtains tp servers entry hdrs where
    "config = JObj tp"
    "obj_at (ustr ''mcpServers'') tp = Some servers"
    "obj_at (selection_rule servers) servers = Some entry"
    "obj_at (ustr ''headers'') entry = Some hdrs"
    "config' = JObj (dict_set (ustr ''mcpServers'')
                  (JObj (dict_set (selection_rule servers)
                     (JObj (new_entry api_key hdrs entry)) servers)) tp)"
proof -
  from assms obtain tp where c: "config = JObj tp"
    using update_config_not_dict [of config api_key] by auto
  from assms c obtain servers where s: "obj_at (ustr ''mcpServers'') tp = Some servers"
    using update_config_servers_not_dict [of tp _ api_key]
    by (cases "obj_at (ustr ''mcpServers'') tp") (auto simp: obj_at_None)
  from assms c s obtain entry where e: "obj_at (selection_rule servers) servers = Some entry"
    using update_config_entry_not_dict [OF s, of _ api_key]
    by (cases "obj_at (selection_rule servers) servers") (auto simp: obj_at_None)
  from assms c s e obtain hdrs where h: "obj_at (ustr ''headers'') entry = Some hdrs"
    using update_config_headers_not_dict [OF s e, of _ api_key]
    by (cases "obj_at (ustr ''headers'') entry") (auto simp: obj_at_None)
  from assms c update_config_dict [OF s e h, of api_key] that [OF c s e h] show thesis
    by simp
qed

lemma update_config_never_KeyError: "update_config api_key config \<noteq> Inl KeyError"
proof (cases "update_config api_key config")
  case (Inr a) then show ?thesis by simp
next
  case (Inl e)
  show ?thesis
  proof (cases "\<exists>tp. config = JObj tp")
    case False
    then show ?thesis using update_config_not_dict [of config api_key] by simp
  next
    case True
    then obtain tp where c: "config = JObj tp" by blast
    show ?thesis
    proof (cases "obj_at (ustr ''mcpServers'') tp")
      case None
      then show ?thesis using update_config_servers_not_dict [of tp _ api_key] c
        by (auto simp: obj_at_None)
    next
      case (Some servers)
      note s = this
      show ?thesis
      proof (cases "obj_at (selection_rule servers) servers")
        case None
        then show ?thesis using update_config_entry_not_dict [OF s, of _ api_key] c
          by (auto simp: obj_at_None)
      next
        case (Some entry)
        note e = this
        show ?thesis
        proof (cases "obj_at (ustr ''headers'') entry")
          case None
          then show ?thesis using update_config_headers_not_dict [OF s e, of _ api_key] c
            by (auto simp: obj_at_None)
        next
          case (Some hdrs)
          from update_config_dict [OF s e Some, of api_key] c show ?thesis by simp
        qed
      qed
    qed
  qed
qed

section \<open>The branches of a run\<close>

lemma main_no_key_file:
  assumes "files w ApiKeyFile = None"
  shows "main L shown w =
    (Returned 1,
     w\<lparr>events := events w @
        [Printed (ustr ''Error: API Key file not found at '' @ shown ApiKeyFile),
         Printed (ustr ''Run: go run server/cmd/mcp-api-key/main.go -action=create'')]\<rparr>)"
  using assms by (simp add: main_def print_line_def)

lemma main_empty_key:
  assumes "files w ApiKeyFile = Some key_text" and "strip key_text = []"
  shows "main L shown w =
    (Returned 1, w\<lparr>events := events w @ [Printed (ustr ''Error: API Key is empty'')]\<rparr>)"
  using assms by (simp add: main_def print_line_def)

lemma main_no_config_file:
  assumes "files w ApiKeyFile = Some key_text" and "strip key_text \<noteq> []"
    and "files w McpJson = None"
  shows "main L shown w =
    (Returned 1,
     w\<lparr>events := events w @
        [Printed (ustr ''Error: mcp.json not found at '' @ shown McpJson)]\<rparr>)"
  using assms by (simp add: main_def print_line_def)


lemma main_backup_fails:
  assumes "files w ApiKeyFile = Some key_text" and "strip key_text \<noteq> []"
    and "files w McpJson = Some text" and "json_loads L text = Some config"
    and "\<not> writable L config"
  shows "main L shown w =
    (Raised UnicodeEncodeError,
     w\<lparr>files := (files w)(Backup \<mapsto> truncated_dump L config),
       events := events w @ [Truncated Backup (truncated_dump L config)]\<rparr>)"
  using assms by (simp add: main_def write_json_def fail_write_def)

lemma main_update_raises:
  assumes "files w ApiKeyFile = Some key_text" and "strip key_text \<noteq> []"
    and "files w McpJson = Some text" and "json_loads L text = Some config"
    and "writable L config"
    and "update_config (strip key_text) config = Inl e"
  shows "main L shown w =
    (Raised e,
     w\<lparr>files := (files w)(Backup \<mapsto> json_dumps L config),
       events := events w @ [Wrote Backup (json_dumps L config)]\<rparr>)"
  using assms by (simp add: main_def write_json_def write_text_def)

lemma main_config_fails:
  assumes "files w ApiKeyFile = Some key_text" and "strip key_text \<noteq> []"
    and "files w McpJson = Some text" and "json_loads L text = Some config"
    and "writable L config"
    and "update_config (strip key_text) config = Inr config'"
    and "\<not> writable L config'"
  shows "main L shown w =
    (Raised UnicodeEncodeError,
     w\<lparr>files := (files w)(Backup \<mapsto> json_dumps L config,
                            McpJson \<mapsto> truncated_dump L config'),
       events := events w @
         [Wrote Backup (json_dumps L config), Truncated McpJson (truncated_dump L config')]\<rparr>)"
  using assms by (simp add: main_def write_json_def write_text_def fail_write_def)

lemma main_updates:
  assumes "files w ApiKeyFile = Some key_text" and "strip key_text \<noteq> []"
    and "files w McpJson = Some text" and "json_loads L text = Some config"
    and "writable L config"
    and "update_config (strip key_text) config = Inr config'"
    and "writable L config'"
  shows "main L shown w =
    (Returned 0,
     w\<lparr>files := (files w)(Backup \<mapsto> json_dumps L config, McpJson \<mapsto> json_dumps L config'),
       events := events w @
         [Wrote Backup (json_dumps L config), Wrote McpJson (json_dumps L config'),
          Printed (9989 # ustr '' Updated '' @ shown McpJson
                     @ ustr '' with API Key from '' @ shown ApiKeyFile),
          Printed (ustr ''Please restart Cursor to apply changes'')]\<rparr>)"
  using assms by (simp add: main_def write_json_def write_text_def print_line_def)

text \<open>
  A run that returns 0 has read both files, loaded a document, written the backup,
  updated the document and written it.
\<close>

lemma main_Returned_0:
  assumes "fst (main L shown w) = Returned 0"
  obtains key_text config_text config config' where
    "files w ApiKeyFile = Some key_text" "strip key_text \<noteq> []"
    "files w McpJson = Some config_text" "json_loads L config_text = Some config"
    "writable L config"
    "update_config (strip key_text) config = Inr config'"
    "writable L config'"
  using assms
  by (auto simp: main_def write_json_def Let_def split: option.splits if_splits sum.splits)

lemma hint_differs:
  "ustr ''Run: go run server/cmd/mcp-api-key/main.go -action=create'' \<noteq> ustr ''Error: API Key is empty''"
  "ustr ''Run: go run server/cmd/mcp-api-key/main.go -action=create'' \<noteq> ustr ''Error: mcp.json not found at '' @ x"
  "ustr ''Run: go run server/cmd/mcp-api-key/main.go -action=create'' \<noteq> ustr ''Error: API Key file not found at '' @ x"
  by (simp_all add: ustr_def)

lemma events_main: "events (snd (main L shown w)) = events w @ run_events L shown w"
  by (auto simp: run_events_def main_def write_json_def Let_def print_line_def write_text_def
      fail_write_def split: option.splits sum.splits)


section \<open>The documents before and after the update\<close>

lemma dict_set_absent: "\<not> dict_has k d \<Longrightarrow> dict_set k v d = d @ [(k, v)]"
  by (induction d) (auto simp: dict_has_def)

lemma chosen_server_dict:
  assumes servers: "obj_at (ustr ''mcpServers'') tp = Some servers"
  shows "chosen_server (JObj tp) = Inr (selection_rule servers)"
proof -
  let ?M = "ustr ''mcpServers''"
  define tp1 where "tp1 = (if dict_has ?M tp then tp else dict_set ?M (JObj []) tp)"
  have g1: "dict_get ?M tp1 = Some (JObj servers)"
    using servers by (rule obj_at_cases) (auto simp: tp1_def dict_has_iff dict_get_set)
  have s1: "ensure_mcpServers (JObj tp) = Inr (JObj tp1)"
    by (simp add: ensure_mcpServers_dict tp1_def)
  show ?thesis
    by (simp add: chosen_server_def s1 bind_exn_def choose_server_dict [OF g1])
qed

text \<open>Reading the documents before and after the update.\<close>

lemma get_servers_before:
  assumes "obj_at (ustr ''mcpServers'') tp = Some servers"
  shows "get_at [ustr ''mcpServers'', m] (JObj tp) =
     (case dict_get m servers of None \<Rightarrow> Inl KeyError | Some v \<Rightarrow> Inr v)"
  using assms by (auto simp: obj_at_def bind_exn_def split: option.splits json.splits)

lemma get_entry_before:
  assumes "obj_at (ustr ''mcpServers'') tp = Some servers" and "obj_at n servers = Some entry"
  shows "get_at [ustr ''mcpServers'', n, f] (JObj tp) =
     (case dict_get f entry of None \<Rightarrow> Inl KeyError | Some v \<Rightarrow> Inr v)"
  using assms by (auto simp: obj_at_def bind_exn_def split: option.splits json.splits)

lemma get_header_before:
  assumes "obj_at (ustr ''mcpServers'') tp = Some servers" and "obj_at n servers = Some entry"
    and "obj_at (ustr ''headers'') entry = Some hdrs"
  shows "get_at [ustr ''mcpServers'', n, ustr ''headers'', h] (JObj tp) =
     (case dict_get h hdrs of None \<Rightarrow> Inl KeyError | Some v \<Rightarrow> Inr v)"
  using assms by (auto simp: obj_at_def bind_exn_def split: option.splits json.splits)

lemma get_servers_after:
  "get_at [ustr ''mcpServers'', m]
     (JObj (dict_set (ustr ''mcpServers'') (JObj (dict_set n (JObj e) servers)) tp)) =
   (if m = n then Inr (JObj e)
    else case dict_get m servers of None \<Rightarrow> Inl KeyError | Some v \<Rightarrow> Inr v)"
  by (auto simp: bind_exn_def dict_get_set split: option.splits)

lemma get_entry_after:
  "get_at [ustr ''mcpServers'', n, f]
     (JObj (dict_set (ustr ''mcpServers'') (JObj (dict_set n (JObj e) servers)) tp)) =
   (case dict_get f e of None \<Rightarrow> Inl KeyError | Some v \<Rightarrow> Inr v)"
  by (auto simp: bind_exn_def dict_get_set split: option.splits)

lemma get_header_after:
  "get_at [ustr ''mcpServers'', n, ustr ''headers'', h]
     (JObj (dict_set (ustr ''mcpServers'')
        (JObj (dict_set n (JObj (new_entry k hdrs entry)) servers)) tp)) =
   (if h = ustr ''X-MCP-API-Key'' then Inr (JStr k)
    else case dict_get h hdrs of None \<Rightarrow> Inl KeyError | Some v \<Rightarrow> Inr v)"
  by (auto simp: bind_exn_def dict_get_set new_entry_def keys_distinct keys_distinct [symmetric]
      split: option.splits)

lemma dict_get_new_entry:
  "dict_get f (new_entry k hdrs entry) =
    (if f = ustr ''description'' then Some (JStr (ustr ''EasyGrid CRUD - MCP HTTP''))
     else if f = ustr ''url'' then Some (JStr (ustr ''http://localhost:8080/api/mcp/v1''))
     else if f = ustr ''headers''
       then Some (JObj (dict_set (ustr ''X-MCP-API-Key'') (JStr k) hdrs))
     else dict_get f entry)"
  by (simp add: new_entry_def dict_get_set)

lemma new_entry_empty:
  "new_entry k [] [] =
    [(ustr ''headers'', JObj [(ustr ''X-MCP-API-Key'', JStr k)]),
     (ustr ''url'', JStr (ustr ''http://localhost:8080/api/mcp/v1'')),
     (ustr ''description'', JStr (ustr ''EasyGrid CRUD - MCP HTTP''))]"
  by (simp add: new_entry_def keys_distinct keys_distinct [symmetric])

text \<open>
  A run that returns 0, with the documents it loaded and wrote.
\<close>

lemma main_success:
  assumes "fst (main L shown w) = Returned 0"
  obtains key_text config_text tp servers entry hdrs where
    "files w ApiKeyFile = Some key_text" "strip key_text \<noteq> []"
    "files w McpJson = Some config_text" "json_loads L config_text = Some (JObj tp)"
    "obj_at (ustr ''mcpServers'') tp = Some servers"
    "obj_at (selection_rule servers) servers = Some entry"
    "obj_at (ustr ''headers'') entry = Some hdrs"
    "files (snd (main L shown w)) McpJson =
       Some (json_dumps L (JObj (dict_set (ustr ''mcpServers'')
          (JObj (dict_set (selection_rule servers)
             (JObj (new_entry (strip key_text) hdrs entry)) servers)) tp)))"
proof -
  from assms obtain key_text config_text config config' where
    k: "files w ApiKeyFile = Some key_text" and ne: "strip key_text \<noteq> []"
    and c: "files w McpJson = Some config_text" and l: "json_loads L config_text = Some config"
    and b1: "writable L config"
    and u: "update_config (strip key_text) config = Inr config'"
    and b2: "writable L config'"
    by (rule main_Returned_0)
  from u obtain tp servers entry hdrs where
    d: "config = JObj tp" "obj_at (ustr ''mcpServers'') tp = Some servers"
    "obj_at (selection_rule servers) servers = Some entry"
    "obj_at (ustr ''headers'') entry = Some hdrs"
    and r: "config' = JObj (dict_set (ustr ''mcpServers'')
                  (JObj (dict_set (selection_rule servers)
                     (JObj (new_entry (strip key_text) hdrs entry)) servers)) tp)"
    by (rule update_config_Inr)
  from main_updates [OF k ne c l b1 u b2, of shown] have
    "files (snd (main L shown w)) McpJson = Some (json_dumps L config')" by simp
  with k ne c l d r that show thesis by simp
qed

section \<open>Replaying the events of a run\<close>




section \<open>The example run\<close>

lemma example_strip: "strip (ustr ''abc123'' @ [10]) = ustr ''abc123''"
  by (simp add: strip_def isspace_def ustr_def)

lemma example_loads:
  \<open>json_loads example_floats (ustr ''{"mcpServers":{}}'') = Some (JObj [(ustr ''mcpServers'', JObj [])])\<close>
  by (simp add: json_loads_def ustr_def skip_ws_def is_ws_def scan_once.simps
      parse_object.simps scanstring.simps)

lemma example_update:
  "update_config (ustr ''abc123'') (JObj [(ustr ''mcpServers'', JObj [])]) =
     Inr (JObj [(ustr ''mcpServers'', JObj [(ustr ''easygrid'', JObj
       [(ustr ''headers'', JObj [(ustr ''X-MCP-API-Key'', JStr (ustr ''abc123''))]),
        (ustr ''url'', JStr (ustr ''http://localhost:8080/api/mcp/v1'')),
        (ustr ''description'', JStr (ustr ''EasyGrid CRUD - MCP HTTP''))])])])"
  by (simp add: update_config_def ensure_mcpServers_def choose_server_def ensure_headers_def
      set_fields_def bind_exn_def dict_has_def ustr_def)

lemma example_backup:
  \<open>json_dumps example_floats (JObj [(ustr ''mcpServers'', JObj [])]) =
     ustr ''{'' @ 10 # ustr ''  "mcpServers": {}'' @ 10 # ustr ''}''\<close>
  by (simp add: json_dumps_def ustr_def encode_basestring_def escape_char_def
      newline_indent_def numeral_2_eq_2)

lemma example_writable:
  "writable example_floats (JObj [(ustr ''mcpServers'', JObj [])])"
  "writable example_floats
     (JObj [(ustr ''mcpServers'', JObj [(ustr ''easygrid'', JObj
       [(ustr ''headers'', JObj [(ustr ''X-MCP-API-Key'', JStr (ustr ''abc123''))]),
        (ustr ''url'', JStr (ustr ''http://localhost:8080/api/mcp/v1'')),
        (ustr ''description'', JStr (ustr ''EasyGrid CRUD - MCP HTTP''))])])])"
  by (simp_all add: writable_def encodable_def ustr_def encode_basestring_def escape_char_def
      newline_indent_def numeral_2_eq_2)

lemma example_run:
  \<open>main example_floats example_paths
     (example_world (Some (ustr ''abc123'' @ [10])) (Some (ustr ''{"mcpServers":{}}'')) b) =
   (Returned 0,
    \<lparr>files = (files (example_world (Some (ustr ''abc123'' @ [10]))
                (Some (ustr ''{"mcpServers":{}}'')) b))
        (Backup \<mapsto> json_dumps example_floats (JObj [(ustr ''mcpServers'', JObj [])]),
         McpJson \<mapsto> json_dumps example_floats
           (JObj [(ustr ''mcpServers'', JObj [(ustr ''easygrid'', JObj
             [(ustr ''headers'', JObj [(ustr ''X-MCP-API-Key'', JStr (ustr ''abc123''))]),
              (ustr ''url'', JStr (ustr ''http://localhost:8080/api/mcp/v1'')),
              (ustr ''description'', JStr (ustr ''EasyGrid CRUD - MCP HTTP''))])])])),
     events =
       [Wrote Backup (json_dumps example_floats (JObj [(ustr ''mcpServers'', JObj [])])),
        Wrote McpJson (json_dumps example_floats
           (JObj [(ustr ''mcpServers'', JObj [(ustr ''easygrid'', JObj
             [(ustr ''headers'', JObj [(ustr ''X-MCP-API-Key'', JStr (ustr ''abc123''))]),
              (ustr ''url'', JStr (ustr ''http://localhost:8080/api/mcp/v1'')),
              (ustr ''description'', JStr (ustr ''EasyGrid CRUD - MCP HTTP''))])])])),
        Printed (9989 # ustr '' Updated /home/dev/.cursor/mcp.json with API Key from /home/dev/.easygrid/api-key''),
        Printed (ustr ''Please restart Cursor to apply changes'')]\<rparr>)\<close>
proof -
  let ?w = \<open>example_world (Some (ustr ''abc123'' @ [10])) (Some (ustr ''{"mcpServers":{}}'')) b\<close>
  have k: "files ?w ApiKeyFile = Some (ustr ''abc123'' @ [10])"
    and c: \<open>files ?w McpJson = Some (ustr ''{"mcpServers":{}}'')\<close>
    by (simp_all add: example_world_def)
  have ne: "strip (ustr ''abc123'' @ [10]) \<noteq> []"
    by (simp add: example_strip) (simp add: ustr_def)
  from main_updates [OF k ne c example_loads example_writable(1), of _ example_paths,
      unfolded example_strip, OF example_update example_writable(2)]
  show ?thesis
    by (simp add: example_world_def example_paths_def) (simp add: ustr_def)
qed

lemma example2_loads:
  \<open>json_loads example_floats
     (ustr ''{"theme":"dark","mcpServers":{"other":{"url":"x"},"easygrid-mcp":{"headers":{"Accept":"json"},"timeout":30}}}'')
   = Some (JObj
      [(ustr ''theme'', JStr (ustr ''dark'')),
       (ustr ''mcpServers'', JObj
         [(ustr ''other'', JObj [(ustr ''url'', JStr (ustr ''x''))]),
          (ustr ''easygrid-mcp'', JObj
            [(ustr ''headers'', JObj [(ustr ''Accept'', JStr (ustr ''json''))]),
             (ustr ''timeout'', JInt 30)])])])\<close>
  by (simp add: json_loads_def ustr_def skip_ws_def is_ws_def scan_once.simps
      parse_object.simps scanstring.simps scan_constant_def starts_with_def match_number_def
      match_int_def match_frac_def match_exp_def is_digit_def int_of_digits_def
      example_floats_def)

lemma example2_update:
  "update_config (ustr ''abc123'') (JObj
      [(ustr ''theme'', JStr (ustr ''dark'')),
       (ustr ''mcpServers'', JObj
         [(ustr ''other'', JObj [(ustr ''url'', JStr (ustr ''x''))]),
          (ustr ''easygrid-mcp'', JObj
            [(ustr ''headers'', JObj [(ustr ''Accept'', JStr (ustr ''json''))]),
             (ustr ''timeout'', JInt 30)])])])
   = Inr (JObj
      [(ustr ''theme'', JStr (ustr ''dark'')),
       (ustr ''mcpServers'', JObj
         [(ustr ''other'', JObj [(ustr ''url'', JStr (ustr ''x''))]),
          (ustr ''easygrid-mcp'', JObj
            [(ustr ''headers'', JObj [(ustr ''Accept'', JStr (ustr ''json'')),
                (ustr ''X-MCP-API-Key'', JStr (ustr ''abc123''))]),
             (ustr ''timeout'', JInt 30),
             (ustr ''url'', JStr (ustr ''http://localhost:8080/api/mcp/v1'')),
             (ustr ''description'', JStr (ustr ''EasyGrid CRUD - MCP HTTP''))])])])"
  by (simp add: update_config_def ensure_mcpServers_def choose_server_def ensure_headers_def
      set_fields_def bind_exn_def dict_has_def ustr_def)

lemma example2_writable:
  "writable example_floats (JObj
      [(ustr ''theme'', JStr (ustr ''dark'')),
       (ustr ''mcpServers'', JObj
         [(ustr ''other'', JObj [(ustr ''url'', JStr (ustr ''x''))]),
          (ustr ''easygrid-mcp'', JObj
            [(ustr ''headers'', JObj [(ustr ''Accept'', JStr (ustr ''json''))]),
             (ustr ''timeout'', JInt 30)])])])"
  "writable example_floats (JObj
      [(ustr ''theme'', JStr (ustr ''dark'')),
       (ustr ''mcpServers'', JObj
         [(ustr ''other'', JObj [(ustr ''url'', JStr (ustr ''x''))]),
          (ustr ''easygrid-mcp'', JObj
            [(ustr ''headers'', JObj [(ustr ''Accept'', JStr (ustr ''json'')),
                (ustr ''X-MCP-API-Key'', JStr (ustr ''abc123''))]),
             (ustr ''timeout'', JInt 30),
             (ustr ''url'', JStr (ustr ''http://localhost:8080/api/mcp/v1'')),
             (ustr ''description'', JStr (ustr ''EasyGrid CRUD - MCP HTTP''))])])])"
  by (simp_all add: writable_def encodable_def ustr_def encode_basestring_def escape_char_def
      newline_indent_def numeral_2_eq_2 int_repr_def digits.simps)

lemma example2_success:
  \<open>fst (main example_floats example_paths
     (example_world (Some (ustr ''abc123'' @ [10]))
        (Some (ustr ''{"theme":"dark","mcpServers":{"other":{"url":"x"},"easygrid-mcp":{"headers":{"Accept":"json"},"timeout":30}}}''))
        None)) = Returned 0\<close>
proof -
  let ?w = \<open>example_world (Some (ustr ''abc123'' @ [10]))
        (Some (ustr ''{"theme":"dark","mcpServers":{"other":{"url":"x"},"easygrid-mcp":{"headers":{"Accept":"json"},"timeout":30}}}''))
        None\<close>
  have k: "files ?w ApiKeyFile = Some (ustr ''abc123'' @ [10])"
    and c: \<open>files ?w McpJson = Some (ustr ''{"theme":"dark","mcpServers":{"other":{"url":"x"},"easygrid-mcp":{"headers":{"Accept":"json"},"timeout":30}}}'')\<close>
    by (simp_all add: example_world_def)
  have ne: "strip (ustr ''abc123'' @ [10]) \<noteq> []"
    by (simp add: example_strip) (simp add: ustr_def)
  from main_updates [OF k ne c example2_loads example2_writable(1), of _ example_paths,
      unfolded example_strip, OF example2_update example2_writable(2)]
  show ?thesis by simp
qed

lemma example3_loads:
  \<open>json_loads example_floats (ustr ''{"theme":"dark"}'')
     = Some (JObj [(ustr ''theme'', JStr (ustr ''dark''))])\<close>
  by (simp add: json_loads_def ustr_def skip_ws_def is_ws_def scan_once.simps
      parse_object.simps scanstring.simps)

lemma example3_writable:
  "writable example_floats (JObj [(ustr ''theme'', JStr (ustr ''dark''))])"
  "writable example_floats
     (JObj [(ustr ''theme'', JStr (ustr ''dark'')),
        (ustr ''mcpServers'', JObj [(ustr ''easygrid'', JObj
          [(ustr ''headers'', JObj [(ustr ''X-MCP-API-Key'', JStr (ustr ''abc123''))]),
           (ustr ''url'', JStr (ustr ''http://localhost:8080/api/mcp/v1'')),
           (ustr ''description'', JStr (ustr ''EasyGrid CRUD - MCP HTTP''))])])])"
  by (simp_all add: writable_def encodable_def ustr_def encode_basestring_def escape_char_def
      newline_indent_def numeral_2_eq_2)

text \<open>
  A configuration whose one string is the escape of a lone surrogate: the text
  \<open>{"a":"\ud800"}\<close>, the backslash being the code point 92. It loads, and cannot be
  written.
\<close>

lemma surrogate_loads:
  \<open>json_loads example_floats (ustr ''{"a":"'' @ [92, 117, 100, 56, 48, 48] @ ustr ''"}'')
     = Some (JObj [(ustr ''a'', JStr [55296])])\<close>
  by (simp add: json_loads_def ustr_def skip_ws_def is_ws_def scan_once.simps
      parse_object.simps scanstring.simps scan_escape_def unicode_escape_def hex_val_def)

lemma surrogate_not_writable:
  "\<not> writable example_floats (JObj [(ustr ''a'', JStr [55296])])"
  by (simp add: writable_def encodable_def ustr_def encode_basestring_def escape_char_def
      newline_indent_def numeral_2_eq_2)

lemma surrogate_truncated:
  \<open>truncated_dump example_floats (JObj [(ustr ''a'', JStr [55296])])
     = ustr ''{'' @ 10 # ustr ''  "a": ''\<close>
  by (simp add: truncated_dump_def encodable_def ustr_def encode_basestring_def escape_char_def
      newline_indent_def numeral_2_eq_2)

text \<open>A run that returns 0 on a document with neither entry.\<close>

lemma main_creates_entry:
  assumes ok: "fst (main L shown w) = Returned 0"
    and key: "files w ApiKeyFile = Some key_text"
    and cfg: "files w McpJson = Some config_text" "json_loads L config_text = Some (JObj tp)"
    and servers: "obj_at (ustr ''mcpServers'') tp = Some servers"
    and neither: "\<not> dict_has (ustr ''easygrid'') servers"
      "\<not> dict_has (ustr ''easygrid-mcp'') servers"
  shows "files (snd (main L shown w)) McpJson =
         Some (json_dumps L (JObj (dict_set (ustr ''mcpServers'')
           (JObj (servers @
             [(ustr ''easygrid'', JObj
                [(ustr ''headers'', JObj [(ustr ''X-MCP-API-Key'', JStr (strip key_text))]),
                 (ustr ''url'', JStr (ustr ''http://localhost:8080/api/mcp/v1'')),
                 (ustr ''description'', JStr (ustr ''EasyGrid CRUD - MCP HTTP''))])])) tp)))
     \<and> chosen_server (JObj tp) = Inr (ustr ''easygrid'')"
proof -
  from ok obtain key_text' config_text' config config' where
    k: "files w ApiKeyFile = Some key_text'" and ne: "strip key_text' \<noteq> []"
    and c: "files w McpJson = Some config_text'" and l: "json_loads L config_text' = Some config"
    and b1: "writable L config"
    and u: "update_config (strip key_text') config = Inr config'"
    and b2: "writable L config'"
    by (rule main_Returned_0)
  from k key c cfg l have same: "key_text' = key_text" "config = JObj tp" by simp_all
  from neither have sel: "selection_rule servers = ustr ''easygrid''"
    by (simp add: selection_rule_def)
  from neither have e: "obj_at (selection_rule servers) servers = Some []"
    by (simp add: sel obj_at_def dict_has_iff)
  have h: "obj_at (ustr ''headers'') ([] :: (ustring \<times> 'a json) list) = Some []"
    by (simp add: obj_at_def)
  from update_config_dict [OF servers e h, of "strip key_text"]
  have u': "update_config (strip key_text) (JObj tp) =
      Inr (JObj (dict_set (ustr ''mcpServers'')
           (JObj (servers @ [(ustr ''easygrid'', JObj (new_entry (strip key_text) [] []))])) tp))"
    using neither by (simp add: sel dict_set_absent)
  from u u' same have c': "config' = JObj (dict_set (ustr ''mcpServers'')
           (JObj (servers @ [(ustr ''easygrid'', JObj (new_entry (strip key_text) [] []))])) tp)"
    by simp
  from main_updates [OF k ne c l b1 u b2, of shown] chosen_server_dict [OF servers] sel c'
  show ?thesis by (simp add: new_entry_empty)
qed

section \<open>Updating twice\<close>






section \<open>Claims\<close>

text \<open>
  C1. In a run that returns 0, \<open>server_name\<close> is what the rule of the specification gives
  on the keys of \<open>mcpServers\<close> (no key when \<open>mcpServers\<close> is missing): \<open>easygrid\<close> when it
  is present; otherwise \<open>easygrid-mcp\<close> when that is present, and then the written
  document has no \<open>easygrid\<close> key; otherwise \<open>easygrid\<close>, which was missing and is written
  as the entry that the three assignments make from an empty one. The entry of that name
  receives the key, and every entry of another name is read as before.
\<close>

theorem selection_rule_holds:
  assumes "fst (main L shown w) = Returned 0"
  shows "\<exists>key_text config_text tp servers config'.
       files w ApiKeyFile = Some key_text \<and> files w McpJson = Some config_text
     \<and> json_loads L config_text = Some (JObj tp)
     \<and> obj_at (ustr ''mcpServers'') tp = Some servers
     \<and> update_config (strip key_text) (JObj tp) = Inr config'
     \<and> files (snd (main L shown w)) McpJson = Some (json_dumps L config')
     \<and> chosen_server (JObj tp) = Inr (selection_rule servers)
     \<and> get_at [ustr ''mcpServers'', selection_rule servers, ustr ''headers'',
           ustr ''X-MCP-API-Key''] config' = Inr (JStr (strip key_text))
     \<and> (\<forall>m. m \<noteq> selection_rule servers \<longrightarrow>
           get_at [ustr ''mcpServers'', m] config' = get_at [ustr ''mcpServers'', m] (JObj tp))
     \<and> (dict_has (ustr ''easygrid'') servers \<longrightarrow> selection_rule servers = ustr ''easygrid'')
     \<and> (\<not> dict_has (ustr ''easygrid'') servers \<and> dict_has (ustr ''easygrid-mcp'') servers \<longrightarrow>
           selection_rule servers = ustr ''easygrid-mcp''
         \<and> get_at [ustr ''mcpServers'', ustr ''easygrid''] config' = Inl KeyError)
     \<and> (\<not> dict_has (ustr ''easygrid'') servers \<and> \<not> dict_has (ustr ''easygrid-mcp'') servers \<longrightarrow>
           selection_rule servers = ustr ''easygrid''
         \<and> get_at [ustr ''mcpServers'', ustr ''easygrid''] (JObj tp) = Inl KeyError
         \<and> get_at [ustr ''mcpServers'', ustr ''easygrid''] config'
             = Inr (JObj (new_entry (strip key_text) [] [])))"
proof -
  from assms obtain key_text config_text tp servers entry hdrs where
    k: "files w ApiKeyFile = Some key_text" and c: "files w McpJson = Some config_text"
    and l: "json_loads L config_text = Some (JObj tp)"
    and s: "obj_at (ustr ''mcpServers'') tp = Some servers"
    and e: "obj_at (selection_rule servers) servers = Some entry"
    and h: "obj_at (ustr ''headers'') entry = Some hdrs"
    and f: "files (snd (main L shown w)) McpJson =
       Some (json_dumps L (JObj (dict_set (ustr ''mcpServers'')
          (JObj (dict_set (selection_rule servers)
             (JObj (new_entry (strip key_text) hdrs entry)) servers)) tp)))"
    by (rule main_success)
  let ?n = "selection_rule servers"
  let ?config' = "JObj (dict_set (ustr ''mcpServers'')
          (JObj (dict_set ?n (JObj (new_entry (strip key_text) hdrs entry)) servers)) tp)"
  have u: "update_config (strip key_text) (JObj tp) = Inr ?config'"
    by (rule update_config_dict [OF s e h])
  have n: "chosen_server (JObj tp) = Inr ?n"
    by (rule chosen_server_dict [OF s])
  have key: "get_at [ustr ''mcpServers'', ?n, ustr ''headers'', ustr ''X-MCP-API-Key''] ?config'
      = Inr (JStr (strip key_text))"
    by (simp add: get_header_after del: get_at.simps)
  have others: "get_at [ustr ''mcpServers'', m] ?config' = get_at [ustr ''mcpServers'', m] (JObj tp)"
    if "m \<noteq> ?n" for m
    using that by (simp add: get_servers_after get_servers_before [OF s] del: get_at.simps)
  have r1: "?n = ustr ''easygrid''" if "dict_has (ustr ''easygrid'') servers"
    using that by (simp add: selection_rule_def)
  have r2: "?n = ustr ''easygrid-mcp''
      \<and> get_at [ustr ''mcpServers'', ustr ''easygrid''] ?config' = Inl KeyError"
    if "\<not> dict_has (ustr ''easygrid'') servers" "dict_has (ustr ''easygrid-mcp'') servers"
    using that
    by (simp add: selection_rule_def get_servers_after dict_has_iff keys_distinct
        del: get_at.simps)
  have r3: "?n = ustr ''easygrid''
      \<and> get_at [ustr ''mcpServers'', ustr ''easygrid''] (JObj tp) = Inl KeyError
      \<and> get_at [ustr ''mcpServers'', ustr ''easygrid''] ?config'
           = Inr (JObj (new_entry (strip key_text) [] []))"
    if a: "\<not> dict_has (ustr ''easygrid'') servers" "\<not> dict_has (ustr ''easygrid-mcp'') servers"
  proof -
    from a have sel: "?n = ustr ''easygrid''" by (simp add: selection_rule_def)
    with a e have "entry = []" by (auto simp: obj_at_def dict_has_iff)
    with h have "hdrs = []" by (simp add: obj_at_def)
    with \<open>entry = []\<close> sel a show ?thesis
      by (simp add: get_servers_after get_servers_before [OF s] dict_has_iff del: get_at.simps)
  qed
  from others have o: "\<forall>m. m \<noteq> ?n \<longrightarrow>
      get_at [ustr ''mcpServers'', m] ?config' = get_at [ustr ''mcpServers'', m] (JObj tp)"
    by blast
  note i1 = impI [OF r1] and i2 = impI [OF r2 [OF conjunct1 conjunct2]]
    and i3 = impI [OF r3 [OF conjunct1 conjunct2]]
  show ?thesis
    by (rule exI [of _ key_text], rule exI [of _ config_text], rule exI [of _ tp],
        rule exI [of _ servers], rule exI [of _ ?config'])
       (intro conjI k c l s u f n key o i1 i2 i3; blast)
qed

theorem selection_rule_holds_witness:
  \<open>fst (main example_floats example_paths
     (example_world (Some (ustr ''abc123'' @ [10]))
        (Some (ustr ''{"theme":"dark","mcpServers":{"other":{"url":"x"},"easygrid-mcp":{"headers":{"Accept":"json"},"timeout":30}}}''))
        None)) = Returned 0
   \<and> (\<exists>config'.
        files (snd (main example_floats example_paths
          (example_world (Some (ustr ''abc123'' @ [10]))
             (Some (ustr ''{"theme":"dark","mcpServers":{"other":{"url":"x"},"easygrid-mcp":{"headers":{"Accept":"json"},"timeout":30}}}''))
             None))) McpJson = Some (json_dumps example_floats config')
      \<and> get_at [ustr ''mcpServers'', ustr ''easygrid-mcp'', ustr ''headers'',
            ustr ''X-MCP-API-Key''] config' = Inr (JStr (ustr ''abc123''))
      \<and> get_at [ustr ''mcpServers'', ustr ''easygrid''] config' = Inl KeyError)\<close>
proof -
  let ?w = \<open>example_world (Some (ustr ''abc123'' @ [10]))
        (Some (ustr ''{"theme":"dark","mcpServers":{"other":{"url":"x"},"easygrid-mcp":{"headers":{"Accept":"json"},"timeout":30}}}''))
        None\<close>
  from selection_rule_holds [OF example2_success] obtain key_text config_text tp servers config'
    where k: "files ?w ApiKeyFile = Some key_text" and c: "files ?w McpJson = Some config_text"
      and l: "json_loads example_floats config_text = Some (JObj tp)"
      and s: "obj_at (ustr ''mcpServers'') tp = Some servers"
      and f: "files (snd (main example_floats example_paths ?w)) McpJson
                = Some (json_dumps example_floats config')"
      and key: "get_at [ustr ''mcpServers'', selection_rule servers, ustr ''headers'',
           ustr ''X-MCP-API-Key''] config' = Inr (JStr (strip key_text))"
      and r2: "\<not> dict_has (ustr ''easygrid'') servers \<and> dict_has (ustr ''easygrid-mcp'') servers \<longrightarrow>
           selection_rule servers = ustr ''easygrid-mcp''
         \<and> get_at [ustr ''mcpServers'', ustr ''easygrid''] config' = Inl KeyError"
    by blast
  from k have kt: "key_text = ustr ''abc123'' @ [10]" by (simp add: example_world_def)
  from c l example2_loads have tp: "tp =
      [(ustr ''theme'', JStr (ustr ''dark'')),
       (ustr ''mcpServers'', JObj
         [(ustr ''other'', JObj [(ustr ''url'', JStr (ustr ''x''))]),
          (ustr ''easygrid-mcp'', JObj
            [(ustr ''headers'', JObj [(ustr ''Accept'', JStr (ustr ''json''))]),
             (ustr ''timeout'', JInt 30)])])]"
    by (simp add: example_world_def)
  from s have sv: "servers =
         [(ustr ''other'', JObj [(ustr ''url'', JStr (ustr ''x''))]),
          (ustr ''easygrid-mcp'', JObj
            [(ustr ''headers'', JObj [(ustr ''Accept'', JStr (ustr ''json''))]),
             (ustr ''timeout'', JInt 30)])]"
    unfolding tp by (simp add: obj_at_def) (simp add: ustr_def)
  have "\<not> dict_has (ustr ''easygrid'') servers \<and> dict_has (ustr ''easygrid-mcp'') servers"
    unfolding sv by (simp add: dict_has_def) (simp add: ustr_def)
  with r2 have "selection_rule servers = ustr ''easygrid-mcp''"
    and "get_at [ustr ''mcpServers'', ustr ''easygrid''] config' = Inl KeyError"
    by blast+
  with key f kt example_strip example2_success show ?thesis
    by (intro conjI exI [of _ config']) (simp_all del: get_at.simps)
qed

text \<open>
  C2. A run that returns 0 has written a document in which the entry named by
  \<open>server_name\<close> has a \<open>headers\<close> object whose \<open>X-MCP-API-Key\<close> is the trimmed text of the
  key file, the \<open>url\<close> \<open>http://localhost:8080/api/mcp/v1\<close> and the \<open>description\<close>
  \<open>EasyGrid CRUD - MCP HTTP\<close>. Where the entry had no \<open>headers\<close>, the new \<open>headers\<close> holds
  the key and nothing else.
\<close>

theorem chosen_entry_is_set:
  assumes "fst (main L shown w) = Returned 0"
  shows "\<exists>key_text config_text config config' n.
       files w ApiKeyFile = Some key_text \<and> files w McpJson = Some config_text
     \<and> json_loads L config_text = Some config
     \<and> chosen_server config = Inr n
     \<and> files (snd (main L shown w)) McpJson = Some (json_dumps L config')
     \<and> update_config (strip key_text) config = Inr config'
     \<and> get_at [ustr ''mcpServers'', n, ustr ''headers'', ustr ''X-MCP-API-Key''] config'
         = Inr (JStr (strip key_text))
     \<and> get_at [ustr ''mcpServers'', n, ustr ''url''] config'
         = Inr (JStr (ustr ''http://localhost:8080/api/mcp/v1''))
     \<and> get_at [ustr ''mcpServers'', n, ustr ''description''] config'
         = Inr (JStr (ustr ''EasyGrid CRUD - MCP HTTP''))
     \<and> (\<exists>hdrs. get_at [ustr ''mcpServers'', n, ustr ''headers''] config' = Inr (JObj hdrs))
     \<and> (get_at [ustr ''mcpServers'', n, ustr ''headers''] config = Inl KeyError \<longrightarrow>
          get_at [ustr ''mcpServers'', n, ustr ''headers''] config'
            = Inr (JObj [(ustr ''X-MCP-API-Key'', JStr (strip key_text))]))"
proof -
  from assms obtain key_text config_text tp servers entry hdrs where
    k: "files w ApiKeyFile = Some key_text" and c: "files w McpJson = Some config_text"
    and l: "json_loads L config_text = Some (JObj tp)"
    and s: "obj_at (ustr ''mcpServers'') tp = Some servers"
    and e: "obj_at (selection_rule servers) servers = Some entry"
    and h: "obj_at (ustr ''headers'') entry = Some hdrs"
    and f: "files (snd (main L shown w)) McpJson =
       Some (json_dumps L (JObj (dict_set (ustr ''mcpServers'')
          (JObj (dict_set (selection_rule servers)
             (JObj (new_entry (strip key_text) hdrs entry)) servers)) tp)))"
    by (rule main_success)
  let ?n = "selection_rule servers"
  let ?config' = "JObj (dict_set (ustr ''mcpServers'')
          (JObj (dict_set ?n (JObj (new_entry (strip key_text) hdrs entry)) servers)) tp)"
  have u: "update_config (strip key_text) (JObj tp) = Inr ?config'"
    by (rule update_config_dict [OF s e h])
  have n: "chosen_server (JObj tp) = Inr ?n"
    by (rule chosen_server_dict [OF s])
  have created: "hdrs = []"
    if "get_at [ustr ''mcpServers'', ?n, ustr ''headers''] (JObj tp) = Inl KeyError"
    using that h unfolding get_entry_before [OF s e]
    by (auto simp: obj_at_def split: option.splits json.splits)
  have "get_at [ustr ''mcpServers'', ?n, ustr ''headers'', ustr ''X-MCP-API-Key''] ?config'
         = Inr (JStr (strip key_text))"
    and "get_at [ustr ''mcpServers'', ?n, ustr ''url''] ?config'
         = Inr (JStr (ustr ''http://localhost:8080/api/mcp/v1''))"
    and "get_at [ustr ''mcpServers'', ?n, ustr ''description''] ?config'
         = Inr (JStr (ustr ''EasyGrid CRUD - MCP HTTP''))"
    and "get_at [ustr ''mcpServers'', ?n, ustr ''headers''] ?config'
         = Inr (JObj (dict_set (ustr ''X-MCP-API-Key'') (JStr (strip key_text)) hdrs))"
    by (simp_all add: get_header_after get_entry_after dict_get_new_entry keys_distinct
        keys_distinct [symmetric] del: get_at.simps)
  with k c l u n f created show ?thesis
    by (intro exI [of _ key_text] exI [of _ config_text] exI [of _ "JObj tp"]
        exI [of _ ?config'] exI [of _ ?n]) auto
qed

theorem chosen_entry_is_set_witness:
  \<open>fst (main example_floats example_paths
      (example_world (Some (ustr ''abc123'' @ [10])) (Some (ustr ''{"mcpServers":{}}'')) None))
     = Returned 0
   \<and> (\<exists>config' n.
         files (snd (main example_floats example_paths
           (example_world (Some (ustr ''abc123'' @ [10])) (Some (ustr ''{"mcpServers":{}}''))
              None))) McpJson = Some (json_dumps example_floats config')
       \<and> get_at [ustr ''mcpServers'', n, ustr ''headers'', ustr ''X-MCP-API-Key''] config'
           = Inr (JStr (ustr ''abc123''))
       \<and> get_at [ustr ''mcpServers'', n, ustr ''url''] config'
           = Inr (JStr (ustr ''http://localhost:8080/api/mcp/v1''))
       \<and> get_at [ustr ''mcpServers'', n, ustr ''description''] config'
           = Inr (JStr (ustr ''EasyGrid CRUD - MCP HTTP'')))\<close>
proof -
  let ?w = \<open>example_world (Some (ustr ''abc123'' @ [10])) (Some (ustr ''{"mcpServers":{}}'')) None\<close>
  have h: "fst (main example_floats example_paths ?w) = Returned 0"
    by (simp add: example_run)
  have k: "files ?w ApiKeyFile = Some (ustr ''abc123'' @ [10])"
    by (simp add: example_world_def)
  from chosen_entry_is_set [OF h] k example_strip h show ?thesis
    by (elim exE conjE) (intro conjI exI, assumption, assumption, simp_all del: get_at.simps)
qed

text \<open>
  C3. When the API-key file is absent, or its content is empty after trimming, or the
  configuration file is absent, \<open>main\<close> returns 1 and writes no file: the files are what
  they were and the run only prints. It prints one message, and the remediation hint
  exactly when the key file is the one that is missing.
\<close>

theorem failures_write_nothing:
  assumes "files w ApiKeyFile = None
     \<or> (\<exists>key_text. files w ApiKeyFile = Some key_text \<and> strip key_text = [])
     \<or> files w McpJson = None"
  shows "fst (main L shown w) = Returned 1
     \<and> files (snd (main L shown w)) = files w
     \<and> run_events L shown w =
         (if files w ApiKeyFile = None then
            [Printed (ustr ''Error: API Key file not found at '' @ shown ApiKeyFile),
             Printed (ustr ''Run: go run server/cmd/mcp-api-key/main.go -action=create'')]
          else if strip (the (files w ApiKeyFile)) = [] then
            [Printed (ustr ''Error: API Key is empty'')]
          else [Printed (ustr ''Error: mcp.json not found at '' @ shown McpJson)])
     \<and> (Printed (ustr ''Run: go run server/cmd/mcp-api-key/main.go -action=create'')
            \<in> set (run_events L shown w) \<longleftrightarrow> files w ApiKeyFile = None)"
proof (cases "files w ApiKeyFile")
  case None
  from main_no_key_file [OF None, of L shown] show ?thesis
    by (simp add: run_events_def None)
next
  case (Some key_text)
  show ?thesis
  proof (cases "strip key_text = []")
    case True
    from main_empty_key [OF Some True, of L shown] show ?thesis
      by (simp add: run_events_def Some True hint_differs)
  next
    case False
    with assms Some have "files w McpJson = None" by auto
    from main_no_config_file [OF Some False this, of L shown] show ?thesis
      by (simp add: run_events_def Some False hint_differs)
  qed
qed

theorem failures_write_nothing_witness:
  "fst (main example_floats example_paths
          (example_world (Some [32, 9, 10]) (Some (ustr ''{}'')) None)) = Returned 1
   \<and> files (snd (main example_floats example_paths
          (example_world (Some [32, 9, 10]) (Some (ustr ''{}'')) None)))
       = files (example_world (Some [32, 9, 10]) (Some (ustr ''{}'')) None)
   \<and> run_events example_floats example_paths
          (example_world (Some [32, 9, 10]) (Some (ustr ''{}'')) None)
       = [Printed (ustr ''Error: API Key is empty'')]"
proof -
  have h: "files (example_world (Some [32, 9, 10]) (Some (ustr ''{}'')) None) ApiKeyFile = None
     \<or> (\<exists>key_text. files (example_world (Some [32, 9, 10]) (Some (ustr ''{}'')) None) ApiKeyFile
            = Some key_text \<and> strip key_text = [])
     \<or> files (example_world (Some [32, 9, 10]) (Some (ustr ''{}'')) None) McpJson = None"
    by (simp add: example_world_def strip_def isspace_def)
  from failures_write_nothing [OF h, of example_floats example_paths] show ?thesis
    by (simp add: example_world_def strip_def isspace_def)
qed

text \<open>
  C4. In a run that returns 0 the written document reads as the loaded one everywhere
  but at the three places the script assigns: every top-level key other than
  \<open>mcpServers\<close>, every entry of \<open>mcpServers\<close> other than the one named by \<open>server_name\<close>,
  every field of that entry other than \<open>url\<close>, \<open>description\<close> and \<open>headers\<close>, and every key
  of its \<open>headers\<close> other than \<open>X-MCP-API-Key\<close>. When \<open>easygrid\<close> is present it is the
  entry updated, and \<open>easygrid-mcp\<close> reads as before.
\<close>

theorem update_keeps_everything_else:
  assumes "fst (main L shown w) = Returned 0"
  shows "\<exists>key_text config_text config config' n.
       files w ApiKeyFile = Some key_text \<and> files w McpJson = Some config_text
     \<and> json_loads L config_text = Some config
     \<and> update_config (strip key_text) config = Inr config'
     \<and> files (snd (main L shown w)) McpJson = Some (json_dumps L config')
     \<and> chosen_server config = Inr n
     \<and> (\<forall>t. t \<noteq> ustr ''mcpServers'' \<longrightarrow> get_at [t] config' = get_at [t] config)
     \<and> (\<forall>m. m \<noteq> n \<longrightarrow>
           get_at [ustr ''mcpServers'', m] config' = get_at [ustr ''mcpServers'', m] config)
     \<and> (\<forall>f. f \<noteq> ustr ''url'' \<and> f \<noteq> ustr ''description'' \<and> f \<noteq> ustr ''headers'' \<longrightarrow>
           get_at [ustr ''mcpServers'', n, f] config' = get_at [ustr ''mcpServers'', n, f] config)
     \<and> (\<forall>h. h \<noteq> ustr ''X-MCP-API-Key'' \<longrightarrow>
           get_at [ustr ''mcpServers'', n, ustr ''headers'', h] config'
             = get_at [ustr ''mcpServers'', n, ustr ''headers'', h] config)
     \<and> ((\<exists>v. get_at [ustr ''mcpServers'', ustr ''easygrid''] config = Inr v) \<longrightarrow>
           n = ustr ''easygrid''
         \<and> get_at [ustr ''mcpServers'', ustr ''easygrid-mcp''] config'
             = get_at [ustr ''mcpServers'', ustr ''easygrid-mcp''] config)"
proof -
  from assms obtain key_text config_text tp servers entry hdrs where
    k: "files w ApiKeyFile = Some key_text" and c: "files w McpJson = Some config_text"
    and l: "json_loads L config_text = Some (JObj tp)"
    and s: "obj_at (ustr ''mcpServers'') tp = Some servers"
    and e: "obj_at (selection_rule servers) servers = Some entry"
    and h: "obj_at (ustr ''headers'') entry = Some hdrs"
    and f: "files (snd (main L shown w)) McpJson =
       Some (json_dumps L (JObj (dict_set (ustr ''mcpServers'')
          (JObj (dict_set (selection_rule servers)
             (JObj (new_entry (strip key_text) hdrs entry)) servers)) tp)))"
    by (rule main_success)
  let ?n = "selection_rule servers"
  let ?config' = "JObj (dict_set (ustr ''mcpServers'')
          (JObj (dict_set ?n (JObj (new_entry (strip key_text) hdrs entry)) servers)) tp)"
  have u: "update_config (strip key_text) (JObj tp) = Inr ?config'"
    by (rule update_config_dict [OF s e h])
  have n: "chosen_server (JObj tp) = Inr ?n"
    by (rule chosen_server_dict [OF s])
  have tops: "\<forall>t. t \<noteq> ustr ''mcpServers'' \<longrightarrow> get_at [t] ?config' = get_at [t] (JObj tp)"
    by (simp add: bind_exn_def dict_get_set)
  have others: "\<forall>m. m \<noteq> ?n \<longrightarrow>
      get_at [ustr ''mcpServers'', m] ?config' = get_at [ustr ''mcpServers'', m] (JObj tp)"
    by (simp add: get_servers_after get_servers_before [OF s] del: get_at.simps)
  have fields: "\<forall>f. f \<noteq> ustr ''url'' \<and> f \<noteq> ustr ''description'' \<and> f \<noteq> ustr ''headers'' \<longrightarrow>
      get_at [ustr ''mcpServers'', ?n, f] ?config' = get_at [ustr ''mcpServers'', ?n, f] (JObj tp)"
    by (simp add: get_entry_after get_entry_before [OF s e] dict_get_new_entry
        del: get_at.simps)
  have headers: "\<forall>h. h \<noteq> ustr ''X-MCP-API-Key'' \<longrightarrow>
      get_at [ustr ''mcpServers'', ?n, ustr ''headers'', h] ?config'
        = get_at [ustr ''mcpServers'', ?n, ustr ''headers'', h] (JObj tp)"
    by (simp add: get_header_after get_header_before [OF s e h] del: get_at.simps)
  have legacy: "(\<exists>v. get_at [ustr ''mcpServers'', ustr ''easygrid''] (JObj tp) = Inr v) \<longrightarrow>
      ?n = ustr ''easygrid''
    \<and> get_at [ustr ''mcpServers'', ustr ''easygrid-mcp''] ?config'
        = get_at [ustr ''mcpServers'', ustr ''easygrid-mcp''] (JObj tp)"
  proof
    assume "\<exists>v. get_at [ustr ''mcpServers'', ustr ''easygrid''] (JObj tp) = Inr v"
    then have "dict_has (ustr ''easygrid'') servers"
      unfolding get_servers_before [OF s] by (auto simp: dict_has_iff split: option.splits)
    then have sel: "?n = ustr ''easygrid''" by (simp add: selection_rule_def)
    moreover from others sel keys_distinct(4)
    have "get_at [ustr ''mcpServers'', ustr ''easygrid-mcp''] ?config'
        = get_at [ustr ''mcpServers'', ustr ''easygrid-mcp''] (JObj tp)"
      by metis
    ultimately show "?n = ustr ''easygrid''
      \<and> get_at [ustr ''mcpServers'', ustr ''easygrid-mcp''] ?config'
        = get_at [ustr ''mcpServers'', ustr ''easygrid-mcp''] (JObj tp)" by blast
  qed
  show ?thesis
    by (rule exI [of _ key_text], rule exI [of _ config_text], rule exI [of _ "JObj tp"],
        rule exI [of _ ?config'], rule exI [of _ ?n])
       (intro conjI k c l u f n tops others fields headers legacy)
qed

theorem update_keeps_everything_else_witness:
  \<open>\<exists>config'.
      files (snd (main example_floats example_paths
        (example_world (Some (ustr ''abc123'' @ [10]))
           (Some (ustr ''{"theme":"dark","mcpServers":{"other":{"url":"x"},"easygrid-mcp":{"headers":{"Accept":"json"},"timeout":30}}}''))
           None))) McpJson = Some (json_dumps example_floats config')
    \<and> get_at [ustr ''theme''] config' = Inr (JStr (ustr ''dark''))
    \<and> get_at [ustr ''mcpServers'', ustr ''other''] config'
        = Inr (JObj [(ustr ''url'', JStr (ustr ''x''))])
    \<and> get_at [ustr ''mcpServers'', ustr ''easygrid-mcp'', ustr ''timeout''] config'
        = Inr (JInt 30)
    \<and> get_at [ustr ''mcpServers'', ustr ''easygrid-mcp'', ustr ''headers'', ustr ''Accept'']
          config' = Inr (JStr (ustr ''json''))\<close>
proof -
  let ?w = \<open>example_world (Some (ustr ''abc123'' @ [10]))
        (Some (ustr ''{"theme":"dark","mcpServers":{"other":{"url":"x"},"easygrid-mcp":{"headers":{"Accept":"json"},"timeout":30}}}''))
        None\<close>
  let ?doc = "JObj
      [(ustr ''theme'', JStr (ustr ''dark'')),
       (ustr ''mcpServers'', JObj
         [(ustr ''other'', JObj [(ustr ''url'', JStr (ustr ''x''))]),
          (ustr ''easygrid-mcp'', JObj
            [(ustr ''headers'', JObj [(ustr ''Accept'', JStr (ustr ''json''))]),
             (ustr ''timeout'', JInt 30)])])] :: ustring json"
  from update_keeps_everything_else [OF example2_success]
  obtain key_text config_text config config' n where
    k: "files ?w ApiKeyFile = Some key_text"
    and c: "files ?w McpJson = Some config_text"
    and l: "json_loads example_floats config_text = Some config"
    and u: "update_config (strip key_text) config = Inr config'"
    and f: "files (snd (main example_floats example_paths ?w)) McpJson
              = Some (json_dumps example_floats config')"
    and n: "chosen_server config = Inr n"
    and tops: "\<forall>t. t \<noteq> ustr ''mcpServers'' \<longrightarrow> get_at [t] config' = get_at [t] config"
    and others: "\<forall>m. m \<noteq> n \<longrightarrow>
           get_at [ustr ''mcpServers'', m] config' = get_at [ustr ''mcpServers'', m] config"
    and fields: "\<forall>f. f \<noteq> ustr ''url'' \<and> f \<noteq> ustr ''description'' \<and> f \<noteq> ustr ''headers'' \<longrightarrow>
           get_at [ustr ''mcpServers'', n, f] config' = get_at [ustr ''mcpServers'', n, f] config"
    and headers: "\<forall>h. h \<noteq> ustr ''X-MCP-API-Key'' \<longrightarrow>
           get_at [ustr ''mcpServers'', n, ustr ''headers'', h] config'
             = get_at [ustr ''mcpServers'', n, ustr ''headers'', h] config"
    and legacy: "(\<exists>v. get_at [ustr ''mcpServers'', ustr ''easygrid''] config = Inr v) \<longrightarrow>
           n = ustr ''easygrid''
         \<and> get_at [ustr ''mcpServers'', ustr ''easygrid-mcp''] config'
             = get_at [ustr ''mcpServers'', ustr ''easygrid-mcp''] config"
    by (elim exE conjE) (rule that)
  from c l example2_loads have doc: "config = ?doc"
    by (simp add: example_world_def)
  have "chosen_server ?doc = Inr (ustr ''easygrid-mcp'')"
    by (simp add: chosen_server_def ensure_mcpServers_def choose_server_def bind_exn_def
        dict_has_def ustr_def)
  with n doc have sel: "n = ustr ''easygrid-mcp''" by simp
  have d: "ustr ''theme'' \<noteq> ustr ''mcpServers''" "ustr ''other'' \<noteq> ustr ''easygrid-mcp''"
    "ustr ''timeout'' \<noteq> ustr ''url''" "ustr ''timeout'' \<noteq> ustr ''description''"
    "ustr ''timeout'' \<noteq> ustr ''headers''" "ustr ''Accept'' \<noteq> ustr ''X-MCP-API-Key''"
    by (simp_all add: ustr_def)
  have v: "get_at [ustr ''theme''] ?doc = Inr (JStr (ustr ''dark''))"
    "get_at [ustr ''mcpServers'', ustr ''other''] ?doc
        = Inr (JObj [(ustr ''url'', JStr (ustr ''x''))])"
    "get_at [ustr ''mcpServers'', ustr ''easygrid-mcp'', ustr ''timeout''] ?doc = Inr (JInt 30)"
    "get_at [ustr ''mcpServers'', ustr ''easygrid-mcp'', ustr ''headers'', ustr ''Accept''] ?doc
        = Inr (JStr (ustr ''json''))"
    by (simp_all add: bind_exn_def ustr_def)
  from tops [rule_format, OF d(1)]
  have "get_at [ustr ''theme''] config' = get_at [ustr ''theme''] ?doc"
    unfolding doc .
  moreover from others [rule_format, of "ustr ''other''"] d(2)
  have "get_at [ustr ''mcpServers'', ustr ''other''] config'
      = get_at [ustr ''mcpServers'', ustr ''other''] ?doc"
    unfolding doc sel by (simp del: get_at.simps)
  moreover from fields [rule_format, of "ustr ''timeout''"] d(3,4,5)
  have "get_at [ustr ''mcpServers'', ustr ''easygrid-mcp'', ustr ''timeout''] config'
      = get_at [ustr ''mcpServers'', ustr ''easygrid-mcp'', ustr ''timeout''] ?doc"
    unfolding doc sel by (simp del: get_at.simps)
  moreover from headers [rule_format, of "ustr ''Accept''"] d(6)
  have "get_at [ustr ''mcpServers'', ustr ''easygrid-mcp'', ustr ''headers'', ustr ''Accept'']
      config' = get_at [ustr ''mcpServers'', ustr ''easygrid-mcp'', ustr ''headers'',
      ustr ''Accept''] ?doc"
    unfolding doc sel by (simp del: get_at.simps)
  ultimately show ?thesis
    unfolding v using f by (intro exI [of _ config'] conjI)
qed



text \<open>
  C6, as stated: the backup file holds the very text of the configuration file. It does
  not: from the one-line text \<open>{"mcpServers":{}}\<close> the run writes a backup of three
  lines.
\<close>

theorem backup_is_not_the_file_text:
  \<open>fst (main example_floats example_paths
      (example_world (Some (ustr ''abc123'' @ [10])) (Some (ustr ''{"mcpServers":{}}'')) None))
     = Returned 0
   \<and> files (snd (main example_floats example_paths
      (example_world (Some (ustr ''abc123'' @ [10])) (Some (ustr ''{"mcpServers":{}}'')) None)))
       Backup
     \<noteq> files (example_world (Some (ustr ''abc123'' @ [10]))
         (Some (ustr ''{"mcpServers":{}}'')) None) McpJson\<close>
  by (simp add: example_run example_backup) (simp add: example_world_def ustr_def)

text \<open>
  C6, amended. Every run that reaches the backup step writes the loaded document as
  \<open>json.dump\<close> prints it with an indentation of two. When the write completes, it is the
  first event of the run and the backup file holds exactly that text, whatever it held
  before. When a chunk cannot be encoded (a string with a lone surrogate), the run raises
  \<open>UnicodeEncodeError\<close>, the backup file holds the chunks before that one, and nothing else
  is written.
\<close>

theorem backup_is_dump_of_loaded_config:
  assumes "files w ApiKeyFile = Some key_text" and "strip key_text \<noteq> []"
    and "files w McpJson = Some config_text" and "json_loads L config_text = Some config"
  shows "(writable L config \<longrightarrow>
            files (snd (main L shown w)) Backup = Some (json_dumps L config)
          \<and> hd (run_events L shown w) = Wrote Backup (json_dumps L config))
     \<and> (\<not> writable L config \<longrightarrow>
            fst (main L shown w) = Raised UnicodeEncodeError
          \<and> files (snd (main L shown w)) = (files w)(Backup \<mapsto> truncated_dump L config)
          \<and> run_events L shown w = [Truncated Backup (truncated_dump L config)])
     \<and> (\<forall>b. Wrote Backup b \<in> set (run_events L shown w) \<longrightarrow>
            b = json_dumps L config \<and> files (snd (main L shown w)) Backup = Some b)"
proof (cases "writable L config")
  case False
  from main_backup_fails [OF assms False, of shown] False show ?thesis
    by (simp add: run_events_def)
next
  case True
  show ?thesis
  proof (cases "update_config (strip key_text) config")
    case (Inl e)
    from main_update_raises [OF assms True Inl, of shown] True show ?thesis
      by (simp add: run_events_def)
  next
    case (Inr config')
    show ?thesis
    proof (cases "writable L config'")
      case False
      from main_config_fails [OF assms True Inr False, of shown] True show ?thesis
        by (simp add: run_events_def)
    next
      case second: True
      from main_updates [OF assms True Inr second, of shown] True show ?thesis
        by (simp add: run_events_def)
    qed
  qed
qed

theorem backup_is_dump_of_loaded_config_witness:
  \<open>files (snd (main example_floats example_paths
          (example_world (Some (ustr ''abc123'' @ [10])) (Some (ustr ''{"mcpServers":{}}''))
             (Some (ustr ''an older backup''))))) Backup
     = Some (ustr ''{'' @ 10 # ustr ''  "mcpServers": {}'' @ 10 # ustr ''}'')
   \<and> fst (main example_floats example_paths
          (example_world (Some (ustr ''abc123'' @ [10]))
             (Some (ustr ''{"a":"'' @ [92, 117, 100, 56, 48, 48] @ ustr ''"}''))
             (Some (ustr ''an older backup'')))) = Raised UnicodeEncodeError
   \<and> files (snd (main example_floats example_paths
          (example_world (Some (ustr ''abc123'' @ [10]))
             (Some (ustr ''{"a":"'' @ [92, 117, 100, 56, 48, 48] @ ustr ''"}''))
             (Some (ustr ''an older backup''))))) Backup
     = Some (ustr ''{'' @ 10 # ustr ''  "a": '')\<close>
proof -
  let ?w = \<open>example_world (Some (ustr ''abc123'' @ [10])) (Some (ustr ''{"mcpServers":{}}''))
             (Some (ustr ''an older backup''))\<close>
  let ?v = \<open>example_world (Some (ustr ''abc123'' @ [10]))
             (Some (ustr ''{"a":"'' @ [92, 117, 100, 56, 48, 48] @ ustr ''"}''))
             (Some (ustr ''an older backup''))\<close>
  have k: "files ?w ApiKeyFile = Some (ustr ''abc123'' @ [10])"
    and c: \<open>files ?w McpJson = Some (ustr ''{"mcpServers":{}}'')\<close>
    and k': "files ?v ApiKeyFile = Some (ustr ''abc123'' @ [10])"
    and c': \<open>files ?v McpJson = Some (ustr ''{"a":"'' @ [92, 117, 100, 56, 48, 48] @ ustr ''"}'')\<close>
    by (simp_all add: example_world_def)
  have ne: "strip (ustr ''abc123'' @ [10]) \<noteq> []"
    by (simp add: example_strip) (simp add: ustr_def)
  from backup_is_dump_of_loaded_config [OF k ne c example_loads, of example_paths]
    example_writable(1)
  have "files (snd (main example_floats example_paths ?w)) Backup
      = Some (json_dumps example_floats (JObj [(ustr ''mcpServers'', JObj [])]))"
    by blast
  moreover
  from backup_is_dump_of_loaded_config [OF k' ne c' surrogate_loads, of example_paths]
    surrogate_not_writable
  have "fst (main example_floats example_paths ?v) = Raised UnicodeEncodeError"
    and "files (snd (main example_floats example_paths ?v))
      = (files ?v)(Backup \<mapsto> truncated_dump example_floats (JObj [(ustr ''a'', JStr [55296])]))"
    by blast+
  ultimately show ?thesis
    by (simp add: example_backup surrogate_truncated)
qed

text \<open>
  C7. In a run that returns 0 on a document whose \<open>mcpServers\<close> has neither \<open>easygrid\<close> nor
  \<open>easygrid-mcp\<close> (or is missing), \<open>server_name\<close> is \<open>easygrid\<close> and the written document is
  the loaded one with an \<open>easygrid\<close> entry appended to \<open>mcpServers\<close> that has exactly
  \<open>headers\<close> (holding the key and nothing else), \<open>url\<close> and \<open>description\<close>, in this order.
  The scenario of the specification, key file \<open>abc123\<close> with a newline and configuration
  \<open>{"mcpServers":{}}\<close>, returns 0 and is the witness.
\<close>

theorem new_entry_has_three_fields:
  assumes ok: "fst (main L shown w) = Returned 0"
    and key: "files w ApiKeyFile = Some key_text"
    and cfg: "files w McpJson = Some config_text" "json_loads L config_text = Some (JObj tp)"
    and servers: "obj_at (ustr ''mcpServers'') tp = Some servers"
    and neither: "\<not> dict_has (ustr ''easygrid'') servers"
      "\<not> dict_has (ustr ''easygrid-mcp'') servers"
  shows "files (snd (main L shown w)) McpJson =
         Some (json_dumps L (JObj (dict_set (ustr ''mcpServers'')
           (JObj (servers @
             [(ustr ''easygrid'', JObj
                [(ustr ''headers'', JObj [(ustr ''X-MCP-API-Key'', JStr (strip key_text))]),
                 (ustr ''url'', JStr (ustr ''http://localhost:8080/api/mcp/v1'')),
                 (ustr ''description'', JStr (ustr ''EasyGrid CRUD - MCP HTTP''))])])) tp)))
     \<and> chosen_server (JObj tp) = Inr (ustr ''easygrid'')"
  using assms by (rule main_creates_entry)

theorem new_entry_has_three_fields_witness:
  \<open>fst (main example_floats example_paths
      (example_world (Some (ustr ''abc123'' @ [10])) (Some (ustr ''{"mcpServers":{}}'')) None))
     = Returned 0
   \<and> files (snd (main example_floats example_paths
      (example_world (Some (ustr ''abc123'' @ [10])) (Some (ustr ''{"mcpServers":{}}'')) None)))
       McpJson
     = Some (json_dumps example_floats
         (JObj [(ustr ''mcpServers'', JObj [(ustr ''easygrid'', JObj
           [(ustr ''headers'', JObj [(ustr ''X-MCP-API-Key'', JStr (ustr ''abc123''))]),
            (ustr ''url'', JStr (ustr ''http://localhost:8080/api/mcp/v1'')),
            (ustr ''description'', JStr (ustr ''EasyGrid CRUD - MCP HTTP''))])])]))\<close>
proof -
  let ?w = \<open>example_world (Some (ustr ''abc123'' @ [10])) (Some (ustr ''{"mcpServers":{}}'')) None\<close>
  have ok: "fst (main example_floats example_paths ?w) = Returned 0"
    by (simp add: example_run)
  have k: "files ?w ApiKeyFile = Some (ustr ''abc123'' @ [10])"
    and c: \<open>files ?w McpJson = Some (ustr ''{"mcpServers":{}}'')\<close>
    by (simp_all add: example_world_def)
  have s: "obj_at (ustr ''mcpServers'') [(ustr ''mcpServers'', JObj [])]
      = Some ([] :: (ustring \<times> ustring json) list)"
    by (simp add: obj_at_def)
  have n: "\<not> dict_has (ustr ''easygrid'') ([] :: (ustring \<times> ustring json) list)"
    "\<not> dict_has (ustr ''easygrid-mcp'') ([] :: (ustring \<times> ustring json) list)"
    by (simp_all add: dict_has_def)
  from new_entry_has_three_fields [OF ok k c example_loads s n] ok
  show ?thesis by (simp add: example_strip)
qed



text \<open>
  C9, as stated: a document without \<open>mcpServers\<close> never makes \<open>main\<close> fail. It can: the
  configuration \<open>{"a":"\ud800"}\<close> is an object without \<open>mcpServers\<close>, and the run raises
  \<open>UnicodeEncodeError\<close> while it writes the backup.
\<close>

theorem missing_mcpServers_can_fail:
  \<open>json_loads example_floats (ustr ''{"a":"'' @ [92, 117, 100, 56, 48, 48] @ ustr ''"}'')
     = Some (JObj [(ustr ''a'', JStr [55296])])
   \<and> \<not> dict_has (ustr ''mcpServers'') [(ustr ''a'', JStr [55296] :: ustring json)]
   \<and> fst (main example_floats example_paths
        (example_world (Some (ustr ''abc123'' @ [10]))
           (Some (ustr ''{"a":"'' @ [92, 117, 100, 56, 48, 48] @ ustr ''"}'')) None))
     = Raised UnicodeEncodeError\<close>
proof -
  let ?v = \<open>example_world (Some (ustr ''abc123'' @ [10]))
           (Some (ustr ''{"a":"'' @ [92, 117, 100, 56, 48, 48] @ ustr ''"}'')) None\<close>
  have k: "files ?v ApiKeyFile = Some (ustr ''abc123'' @ [10])"
    and c: \<open>files ?v McpJson = Some (ustr ''{"a":"'' @ [92, 117, 100, 56, 48, 48] @ ustr ''"}'')\<close>
    by (simp_all add: example_world_def)
  have ne: "strip (ustr ''abc123'' @ [10]) \<noteq> []"
    by (simp add: example_strip) (simp add: ustr_def)
  have m: "\<not> dict_has (ustr ''mcpServers'') [(ustr ''a'', JStr [55296] :: ustring json)]"
    by (simp add: dict_has_def) (simp add: ustr_def)
  from main_backup_fails [OF k ne c surrogate_loads surrogate_not_writable, of example_paths]
    surrogate_loads m
  show ?thesis by simp
qed

text \<open>
  C9, amended. When the loaded document is an object without the key \<open>mcpServers\<close>, lines 39
  to 56 do not fail: line 40 appends an empty \<open>mcpServers\<close>, \<open>server_name\<close> is \<open>easygrid\<close>,
  and the updated document is the loaded one followed by \<open>mcpServers\<close> with the new
  \<open>easygrid\<close> entry, so every other top-level key reads as before. The run returns 0
  exactly when the loaded and the updated document can both be written; otherwise it
  raises \<open>UnicodeEncodeError\<close>. When it returns 0 it has written the updated document.
\<close>

theorem missing_mcpServers_is_created:
  assumes key: "files w ApiKeyFile = Some key_text" "strip key_text \<noteq> []"
    and cfg: "files w McpJson = Some config_text" "json_loads L config_text = Some (JObj tp)"
    and missing: "\<not> dict_has (ustr ''mcpServers'') tp"
  shows "ensure_mcpServers (JObj tp) = Inr (JObj (tp @ [(ustr ''mcpServers'', JObj [])]))
     \<and> chosen_server (JObj tp) = Inr (ustr ''easygrid'')
     \<and> update_config (strip key_text) (JObj tp) =
         Inr (JObj (tp @
           [(ustr ''mcpServers'', JObj
             [(ustr ''easygrid'', JObj
                [(ustr ''headers'', JObj [(ustr ''X-MCP-API-Key'', JStr (strip key_text))]),
                 (ustr ''url'', JStr (ustr ''http://localhost:8080/api/mcp/v1'')),
                 (ustr ''description'', JStr (ustr ''EasyGrid CRUD - MCP HTTP''))])])]))
     \<and> (fst (main L shown w) = Returned 0 \<longleftrightarrow>
           writable L (JObj tp)
         \<and> writable L (JObj (tp @
           [(ustr ''mcpServers'', JObj
             [(ustr ''easygrid'', JObj
                [(ustr ''headers'', JObj [(ustr ''X-MCP-API-Key'', JStr (strip key_text))]),
                 (ustr ''url'', JStr (ustr ''http://localhost:8080/api/mcp/v1'')),
                 (ustr ''description'', JStr (ustr ''EasyGrid CRUD - MCP HTTP''))])])])))
     \<and> (fst (main L shown w) \<noteq> Returned 0 \<longrightarrow>
           fst (main L shown w) = Raised UnicodeEncodeError)
     \<and> (fst (main L shown w) = Returned 0 \<longrightarrow>
           files (snd (main L shown w)) McpJson =
             Some (json_dumps L (JObj (tp @
               [(ustr ''mcpServers'', JObj
                 [(ustr ''easygrid'', JObj
                    [(ustr ''headers'', JObj [(ustr ''X-MCP-API-Key'', JStr (strip key_text))]),
                     (ustr ''url'', JStr (ustr ''http://localhost:8080/api/mcp/v1'')),
                     (ustr ''description'', JStr (ustr ''EasyGrid CRUD - MCP HTTP''))])])]))))
     \<and> (\<forall>t v. get_at [t] (JObj tp) = Inr v \<longrightarrow>
           get_at [t] (JObj (tp @
             [(ustr ''mcpServers'', JObj
               [(ustr ''easygrid'', JObj
                  [(ustr ''headers'', JObj [(ustr ''X-MCP-API-Key'', JStr (strip key_text))]),
                   (ustr ''url'', JStr (ustr ''http://localhost:8080/api/mcp/v1'')),
                   (ustr ''description'', JStr (ustr ''EasyGrid CRUD - MCP HTTP''))])])])) = Inr v)"
proof -
  let ?config' = "JObj (tp @
           [(ustr ''mcpServers'', JObj
             [(ustr ''easygrid'', JObj
                [(ustr ''headers'', JObj [(ustr ''X-MCP-API-Key'', JStr (strip key_text))]),
                 (ustr ''url'', JStr (ustr ''http://localhost:8080/api/mcp/v1'')),
                 (ustr ''description'', JStr (ustr ''EasyGrid CRUD - MCP HTTP''))])])])"
  from missing have s: "obj_at (ustr ''mcpServers'') tp = Some []"
    by (simp add: obj_at_def dict_has_iff)
  have sel: "selection_rule ([] :: (ustring \<times> 'a json) list) = ustr ''easygrid''"
    by (simp add: selection_rule_def dict_has_def)
  have e: "obj_at (selection_rule []) ([] :: (ustring \<times> 'a json) list) = Some []"
    by (simp add: obj_at_def)
  have h: "obj_at (ustr ''headers'') ([] :: (ustring \<times> 'a json) list) = Some []"
    by (simp add: obj_at_def)
  from update_config_dict [OF s e h, of "strip key_text"] missing
  have u: "update_config (strip key_text) (JObj tp) = Inr ?config'"
    by (simp add: sel dict_set_absent new_entry_empty)
  from missing have d: "ensure_mcpServers (JObj tp) = Inr (JObj (tp @ [(ustr ''mcpServers'', JObj [])]))"
    by (simp add: ensure_mcpServers_dict dict_set_absent)
  from chosen_server_dict [OF s] have n: "chosen_server (JObj tp) = Inr (ustr ''easygrid'')"
    by (simp add: sel)
  have g: "get_at [t] (JObj (tp @ [(ustr ''mcpServers'', x)])) = Inr v"
    if "get_at [t] (JObj tp) = Inr v" for t v x
  proof -
    from that have g: "dict_get t tp = Some v"
      by (auto simp: bind_exn_def split: option.splits)
    with missing have "t \<noteq> ustr ''mcpServers''" by (auto simp: dict_has_iff)
    with g have "dict_get t (dict_set (ustr ''mcpServers'') x tp) = Some v"
      by (simp add: dict_get_set)
    with missing show ?thesis by (simp add: dict_set_absent bind_exn_def)
  qed
  have r: "(fst (main L shown w) = Returned 0 \<longleftrightarrow> writable L (JObj tp) \<and> writable L ?config')
     \<and> (fst (main L shown w) \<noteq> Returned 0 \<longrightarrow> fst (main L shown w) = Raised UnicodeEncodeError)
     \<and> (fst (main L shown w) = Returned 0 \<longrightarrow>
           files (snd (main L shown w)) McpJson = Some (json_dumps L ?config'))"
  proof (cases "writable L (JObj tp)")
    case False
    from main_backup_fails [OF key cfg False, of shown] False show ?thesis by simp
  next
    case True
    show ?thesis
    proof (cases "writable L ?config'")
      case False
      from main_config_fails [OF key cfg True u False, of shown] False show ?thesis by simp
    next
      case second: True
      from main_updates [OF key cfg True u second, of shown] True second show ?thesis by simp
    qed
  qed
  from d n u r g show ?thesis by (intro conjI allI impI) (blast | assumption)+
qed

theorem missing_mcpServers_is_created_witness:
  \<open>fst (main example_floats example_paths
      (example_world (Some (ustr ''abc123'' @ [10])) (Some (ustr ''{"theme":"dark"}'')) None))
     = Returned 0
   \<and> files (snd (main example_floats example_paths
      (example_world (Some (ustr ''abc123'' @ [10])) (Some (ustr ''{"theme":"dark"}'')) None)))
       McpJson
     = Some (json_dumps example_floats
         (JObj [(ustr ''theme'', JStr (ustr ''dark'')),
            (ustr ''mcpServers'', JObj [(ustr ''easygrid'', JObj
              [(ustr ''headers'', JObj [(ustr ''X-MCP-API-Key'', JStr (ustr ''abc123''))]),
               (ustr ''url'', JStr (ustr ''http://localhost:8080/api/mcp/v1'')),
               (ustr ''description'', JStr (ustr ''EasyGrid CRUD - MCP HTTP''))])])]))\<close>
proof -
  let ?w = \<open>example_world (Some (ustr ''abc123'' @ [10])) (Some (ustr ''{"theme":"dark"}'')) None\<close>
  have k: "files ?w ApiKeyFile = Some (ustr ''abc123'' @ [10])"
    and c: \<open>files ?w McpJson = Some (ustr ''{"theme":"dark"}'')\<close>
    by (simp_all add: example_world_def)
  have ne: "strip (ustr ''abc123'' @ [10]) \<noteq> []"
    by (simp add: example_strip) (simp add: ustr_def)
  have m: "\<not> dict_has (ustr ''mcpServers'')
      [(ustr ''theme'', JStr (ustr ''dark'') :: ustring json)]"
    by (simp add: dict_has_def) (simp add: ustr_def)
  from missing_mcpServers_is_created [OF k ne c example3_loads m, of example_paths,
      unfolded example_strip] example3_writable
  show ?thesis by (simp del: get_at.simps)
qed

text \<open>
  C10. Two runs that find the same key file and the same configuration file return the
  same code, print and write the same, and leave the same configuration file; they leave
  the same backup file whenever they write one. What the backup file held before, and
  what was printed before, does not matter.
\<close>

theorem runs_are_deterministic:
  assumes "files w1 ApiKeyFile = files w2 ApiKeyFile" and "files w1 McpJson = files w2 McpJson"
  shows "fst (main L shown w1) = fst (main L shown w2)
     \<and> run_events L shown w1 = run_events L shown w2
     \<and> files (snd (main L shown w1)) McpJson = files (snd (main L shown w2)) McpJson
     \<and> ((\<exists>b. Wrote Backup b \<in> set (run_events L shown w1)) \<longrightarrow>
          files (snd (main L shown w1)) Backup = files (snd (main L shown w2)) Backup)"
  using assms
  by (auto simp: main_def run_events_def write_json_def Let_def print_line_def write_text_def
      fail_write_def split: option.splits sum.splits)

theorem runs_are_deterministic_witness:
  \<open>fst (main example_floats example_paths
      (example_world (Some (ustr ''abc123'' @ [10])) (Some (ustr ''{"mcpServers":{}}'')) None))
   = fst (main example_floats example_paths
      (example_world (Some (ustr ''abc123'' @ [10])) (Some (ustr ''{"mcpServers":{}}''))
         (Some (ustr ''an older backup''))))
   \<and> run_events example_floats example_paths
      (example_world (Some (ustr ''abc123'' @ [10])) (Some (ustr ''{"mcpServers":{}}'')) None)
   = run_events example_floats example_paths
      (example_world (Some (ustr ''abc123'' @ [10])) (Some (ustr ''{"mcpServers":{}}''))
         (Some (ustr ''an older backup'')))
   \<and> files (snd (main example_floats example_paths
      (example_world (Some (ustr ''abc123'' @ [10])) (Some (ustr ''{"mcpServers":{}}'')) None)))
        Backup
   = files (snd (main example_floats example_paths
      (example_world (Some (ustr ''abc123'' @ [10])) (Some (ustr ''{"mcpServers":{}}''))
         (Some (ustr ''an older backup''))))) Backup\<close>
proof -
  let ?w1 = \<open>example_world (Some (ustr ''abc123'' @ [10])) (Some (ustr ''{"mcpServers":{}}'')) None\<close>
  let ?w2 = \<open>example_world (Some (ustr ''abc123'' @ [10])) (Some (ustr ''{"mcpServers":{}}''))
         (Some (ustr ''an older backup''))\<close>
  have k: "files ?w1 ApiKeyFile = files ?w2 ApiKeyFile"
    and c: "files ?w1 McpJson = files ?w2 McpJson"
    by (simp_all add: example_world_def)
  have b: "\<exists>b. Wrote Backup b \<in> set (run_events example_floats example_paths ?w1)"
    by (simp add: run_events_def example_run) (simp add: example_world_def)
  from runs_are_deterministic [OF k c, of example_floats example_paths] b show ?thesis
    by blast
qed

end
